theory Spec2Isabelle
  imports Main "HOL-Library.Multiset"
begin

section \<open>The module proxysql\_galera\_hostgroups\<close>

text \<open>
  A shallow embedding of \<^verbatim>\<open>plugins/modules/proxysql_galera_hostgroups.py\<close>.
  The module receives its parameters, connects to the ProxySQL admin interface and
  inserts, updates or deletes one row of the table \<^verbatim>\<open>mysql_galera_hostgroups\<close>.

  The admin interface is not part of the module. It is modelled as a state: the table
  in memory, its persisted copy, its runtime copy, and the list of the actions the
  module has attempted on it. Python integers are \<open>int\<close>. A string that may be
  \<^verbatim>\<open>None\<close> (or a column that may be \<^verbatim>\<open>NULL\<close>) is a \<open>string option\<close>.
\<close>

subsection \<open>Parameters, rows and the admin interface\<close>

datatype state = Present | Absent

text \<open>
  \<^verbatim>\<open>module.params\<close> together with \<^verbatim>\<open>module.check_mode\<close>. The constructor of
  \<^verbatim>\<open>ProxySQLGaleraHostgroup\<close> copies exactly these fields to \<^verbatim>\<open>self\<close>, so the
  same record stands for \<^verbatim>\<open>self\<close>. The eight integer parameters are required. The
  comment is a string with the default \<^verbatim>\<open>''\<close>; a playbook that passes a null
  comment leaves it \<^verbatim>\<open>None\<close>, the case for which the source writes
  \<^verbatim>\<open>self.comment or ''\<close>. The connection parameters are used by
  \<^verbatim>\<open>mysql_connect\<close> only, whose outcome belongs to the environment below.
\<close>

record ansible_module =
  writer_hostgroup :: int
  backup_writer_hostgroup :: int
  reader_hostgroup :: int
  offline_hostgroup :: int
  active :: int
  max_writers :: int
  writer_is_also_reader :: int
  max_transactions_behind :: int
  comment :: "string option"
  state :: state
  save_to_disk :: bool
  load_to_runtime :: bool
  check_mode :: bool

text \<open>A row of \<^verbatim>\<open>mysql_galera_hostgroups\<close>; the columns carry the prefix \<open>col\<close>.\<close>

record galera_row =
  col_writer_hostgroup :: int
  col_backup_writer_hostgroup :: int
  col_reader_hostgroup :: int
  col_offline_hostgroup :: int
  col_active :: int
  col_max_writers :: int
  col_writer_is_also_reader :: int
  col_max_transactions_behind :: int
  col_comment :: "string option"

text \<open>
  What the module attempts on the admin interface: the connection, the two SELECTs, the
  INSERT, the DELETE, the two UPDATEs, and the two calls of the helper library.
\<close>

datatype action =
    Connect
  | Select_count int
  | Select_row int
  | Insert galera_row
  | Delete int
  | Update_reader_hostgroup int int
  | Update_comment "string option" int
  | Save_config_to_disk
  | Load_config_to_runtime

record proxysql =
  memory :: "galera_row list"
  disk :: "galera_row list"
  runtime :: "galera_row list"
  actions :: "action list"

text \<open>
  The environment decides what the module cannot: whether \<^verbatim>\<open>mysql_connect\<close> raises
  \<^verbatim>\<open>mysql_driver.Error\<close>, and whether the driver raises it for a statement on a
  given table (a lost connection, a constraint of the schema).
\<close>

record env =
  connect_error :: "string option"
  driver_error :: "action \<Rightarrow> galera_row list \<Rightarrow> string option"

datatype exn = Driver_Error string | Attribute_Error

text \<open>The dictionary \<^verbatim>\<open>result\<close>; \<open>None\<close> is a key that was never set.\<close>

record result =
  r_state :: state
  changed :: bool
  msg :: "string option"
  galera_group :: "galera_row option option"

text \<open>
  How a run ends: \<^verbatim>\<open>exit_json\<close> with the result, \<^verbatim>\<open>fail_json\<close> with a message,
  or a Python exception that nothing catches.
\<close>

datatype outcome = Exit result | Fail string | Uncaught exn

subsection \<open>Statements on the table\<close>

definition targets :: "int \<Rightarrow> galera_row \<Rightarrow> bool" where
  "targets w r = (col_writer_hostgroup r = w)"

text \<open>The rows a statement returns (\<^verbatim>\<open>WHERE writer_hostgroup = %s\<close>).\<close>

fun result_set :: "action \<Rightarrow> galera_row list \<Rightarrow> galera_row list" where
  "result_set (Select_count w) t = filter (targets w) t"
| "result_set (Select_row w) t = filter (targets w) t"
| "result_set _ t = []"

text \<open>
  Modelled from the spec: \<^verbatim>\<open>save_config_to_disk\<close> and \<^verbatim>\<open>load_config_to_runtime\<close>
  are helpers of \<^verbatim>\<open>module_utils/mysql.py\<close>, which is not among the sources. The spec
  says that they persist and activate the change: the one copies the configuration in
  memory to disk, the other to the runtime.
\<close>

definition persist :: "proxysql \<Rightarrow> proxysql" where
  "persist db = db\<lparr>disk := memory db\<rparr>"

definition activate :: "proxysql \<Rightarrow> proxysql" where
  "activate db = db\<lparr>runtime := memory db\<rparr>"

text \<open>The effect of each statement on the table.\<close>

definition update_where ::
  "int \<Rightarrow> (galera_row \<Rightarrow> galera_row) \<Rightarrow> galera_row list \<Rightarrow> galera_row list" where
  "update_where w f t = map (\<lambda>r. if targets w r then f r else r) t"

definition delete_where :: "int \<Rightarrow> galera_row list \<Rightarrow> galera_row list" where
  "delete_where w t = filter (\<lambda>r. \<not> targets w r) t"

fun apply_action :: "action \<Rightarrow> proxysql \<Rightarrow> proxysql" where
  "apply_action (Insert r) db = db\<lparr>memory := memory db @ [r]\<rparr>"
| "apply_action (Delete w) db = db\<lparr>memory := delete_where w (memory db)\<rparr>"
| "apply_action (Update_reader_hostgroup v w) db =
     db\<lparr>memory := update_where w (\<lambda>r. r\<lparr>col_reader_hostgroup := v\<rparr>) (memory db)\<rparr>"
| "apply_action (Update_comment v w) db =
     db\<lparr>memory := update_where w (\<lambda>r. r\<lparr>col_comment := v\<rparr>) (memory db)\<rparr>"
| "apply_action Save_config_to_disk db = persist db"
| "apply_action Load_config_to_runtime db = activate db"
| "apply_action _ db = db"

subsection \<open>Computations that may raise\<close>

type_synonym 'a run = "proxysql \<Rightarrow> (exn + 'a) \<times> proxysql"

definition ret :: "'a \<Rightarrow> 'a run" where
  "ret x db = (Inr x, db)"

definition raise :: "exn \<Rightarrow> 'a run" where
  "raise e db = (Inl e, db)"

definition and_then :: "'a run \<Rightarrow> ('a \<Rightarrow> 'b run) \<Rightarrow> 'b run" where
  "and_then f g db = (case f db of (Inl e, db') \<Rightarrow> (Inl e, db') | (Inr x, db') \<Rightarrow> g x db')"

text \<open>
  \<^verbatim>\<open>cursor.execute\<close>: the attempt is recorded; the driver raises, or the statement
  takes effect and its rows are returned.
\<close>

definition execute :: "env \<Rightarrow> action \<Rightarrow> galera_row list run" where
  "execute e a db =
     (let db1 = db\<lparr>actions := actions db @ [a]\<rparr> in
      case driver_error e a (memory db) of
        Some err \<Rightarrow> (Inl (Driver_Error err), db1)
      | None \<Rightarrow> (Inr (result_set a (memory db)), apply_action a db1))"

text \<open>\<^verbatim>\<open>cursor.fetchone()\<close>: the first row, or \<^verbatim>\<open>None\<close>.\<close>

definition fetchone :: "galera_row list \<Rightarrow> galera_row option" where
  "fetchone rows = (case rows of [] \<Rightarrow> None | r # _ \<Rightarrow> Some r)"

text \<open>
  \<^verbatim>\<open>mysql_connect\<close>, as far as \<^verbatim>\<open>main\<close> depends on it: it returns a cursor or
  raises \<^verbatim>\<open>mysql_driver.Error\<close>.
\<close>

definition mysql_connect :: "env \<Rightarrow> unit run" where
  "mysql_connect e db =
     (let db1 = db\<lparr>actions := actions db @ [Connect]\<rparr> in
      case connect_error e of
        Some err \<Rightarrow> (Inl (Driver_Error err), db1)
      | None \<Rightarrow> (Inr (), db1))"

subsection \<open>The module's functions\<close>

definition perform_checks :: "ansible_module \<Rightarrow> string option" where
  "perform_checks m =
     (if \<not> (writer_hostgroup m \<ge> 0) then
        Some ''writer_hostgroup must be a integer greater than or equal to 0''
      else if reader_hostgroup m < 0 then
        Some ''reader_hostgroup must be an integer greater than or equal to 0''
      else if reader_hostgroup m = writer_hostgroup m then
        Some ''reader_hostgroup and writer_hostgroup must be different integer values''
      else None)"

definition check_galera_group_config :: "env \<Rightarrow> ansible_module \<Rightarrow> bool run" where
  "check_galera_group_config e self =
     and_then (execute e (Select_count (writer_hostgroup self)))
       (\<lambda>rows. ret (int (length rows) > 0))"

definition get_galera_group_config :: "env \<Rightarrow> ansible_module \<Rightarrow> galera_row option run" where
  "get_galera_group_config e self =
     and_then (execute e (Select_row (writer_hostgroup self)))
       (\<lambda>rows. ret (fetchone rows))"

text \<open>\<^verbatim>\<open>self.comment or ''\<close>: a comment that is \<^verbatim>\<open>None\<close> or empty gives the empty string.\<close>

definition comment_or_empty :: "string option \<Rightarrow> string" where
  "comment_or_empty c = (case c of None \<Rightarrow> '''' | Some s \<Rightarrow> (if s = '''' then '''' else s))"

definition new_row :: "ansible_module \<Rightarrow> galera_row" where
  "new_row self =
     \<lparr>col_writer_hostgroup = writer_hostgroup self,
      col_backup_writer_hostgroup = backup_writer_hostgroup self,
      col_reader_hostgroup = reader_hostgroup self,
      col_offline_hostgroup = offline_hostgroup self,
      col_active = active self,
      col_max_writers = max_writers self,
      col_writer_is_also_reader = writer_is_also_reader self,
      col_max_transactions_behind = max_transactions_behind self,
      col_comment = Some (comment_or_empty (comment self))\<rparr>"

definition create_galera_group_config :: "env \<Rightarrow> ansible_module \<Rightarrow> bool run" where
  "create_galera_group_config e self =
     and_then (execute e (Insert (new_row self))) (\<lambda>_. ret True)"

definition delete_galera_group_config :: "env \<Rightarrow> ansible_module \<Rightarrow> bool run" where
  "delete_galera_group_config e self =
     and_then (execute e (Delete (writer_hostgroup self))) (\<lambda>_. ret True)"

definition save_config_to_disk :: "env \<Rightarrow> unit run" where
  "save_config_to_disk e = and_then (execute e Save_config_to_disk) (\<lambda>_. ret ())"

definition load_config_to_runtime :: "env \<Rightarrow> unit run" where
  "load_config_to_runtime e = and_then (execute e Load_config_to_runtime) (\<lambda>_. ret ())"

definition manage_config :: "env \<Rightarrow> ansible_module \<Rightarrow> bool \<Rightarrow> unit run" where
  "manage_config e self st =
     (if st \<and> \<not> check_mode self then
        and_then (if save_to_disk self then save_config_to_disk e else ret ())
          (\<lambda>_. if load_to_runtime self then load_config_to_runtime e else ret ())
      else ret ())"

definition update_reader_hostgroup :: "env \<Rightarrow> ansible_module \<Rightarrow> unit run" where
  "update_reader_hostgroup e self =
     and_then
       (execute e (Update_reader_hostgroup (reader_hostgroup self) (writer_hostgroup self)))
       (\<lambda>_. ret ())"

definition update_comment :: "env \<Rightarrow> ansible_module \<Rightarrow> unit run" where
  "update_comment e self =
     and_then (execute e (Update_comment (comment self) (writer_hostgroup self)))
       (\<lambda>_. ret ())"

definition create_galera_group :: "env \<Rightarrow> ansible_module \<Rightarrow> result \<Rightarrow> result run" where
  "create_galera_group e self res =
     (if \<not> check_mode self then
        and_then (create_galera_group_config e self) (\<lambda>c.
        let res1 = res\<lparr>changed := c, msg := Some ''Added server to mysql_hosts''\<rparr> in
        and_then (get_galera_group_config e self) (\<lambda>g.
        let res2 = res1\<lparr>galera_group := Some g\<rparr> in
        and_then (manage_config e self (changed res2)) (\<lambda>_. ret res2)))
      else
        ret (res\<lparr>changed := True,
                 msg := Some (''Galera group would have been added to''
                              @ '' mysql_galera_hostgroups, however''
                              @ '' check_mode is enabled.'')\<rparr>))"

text \<open>
  \<^verbatim>\<open>current.get\<close> on \<^verbatim>\<open>None\<close> raises AttributeError. The driver returns the
  integer columns as text; \<^verbatim>\<open>int(...)\<close> reads them back, here they are integers.
\<close>

definition update_galera_group :: "env \<Rightarrow> ansible_module \<Rightarrow> result \<Rightarrow> result run" where
  "update_galera_group e self res =
     and_then (get_galera_group_config e self) (\<lambda>current.
     case current of
       None \<Rightarrow> raise Attribute_Error
     | Some cur \<Rightarrow>
        and_then
          (if col_comment cur \<noteq> comment self then
             (let res1 = res\<lparr>changed := True,
                              msg := Some ''Updated galera hostgroups in check_mode''\<rparr> in
              if \<not> check_mode self then
                (let res2 = res1\<lparr>msg := Some ''Updated galera hostgroups''\<rparr> in
                 and_then (update_comment e self) (\<lambda>_. ret res2))
              else ret res1)
           else ret res) (\<lambda>resA.
        and_then
          (if col_reader_hostgroup cur \<noteq> reader_hostgroup self then
             (let res1 = resA\<lparr>changed := True,
                               msg := Some ''Updated galera hostgroups in check_mode''\<rparr> in
              if \<not> check_mode self then
                (let res2 = res1\<lparr>msg := Some ''Updated galera hostgroups''\<rparr> in
                 and_then (update_reader_hostgroup e self) (\<lambda>_. ret res2))
              else ret res1)
           else ret resA) (\<lambda>resB.
        and_then (get_galera_group_config e self) (\<lambda>g.
        let resC = resB\<lparr>galera_group := Some g\<rparr> in
        and_then (manage_config e self (changed resC)) (\<lambda>_. ret resC)))))"

definition delete_galera_group :: "env \<Rightarrow> ansible_module \<Rightarrow> result \<Rightarrow> result run" where
  "delete_galera_group e self res =
     (if \<not> check_mode self then
        and_then (get_galera_group_config e self) (\<lambda>g.
        let res1 = res\<lparr>galera_group := Some g\<rparr> in
        and_then (delete_galera_group_config e self) (\<lambda>c.
        let res2 = res1\<lparr>changed := c, msg := Some ''Deleted server from mysql_hosts''\<rparr> in
        and_then (manage_config e self (changed res2)) (\<lambda>_. ret res2)))
      else
        ret (res\<lparr>changed := True,
                 msg := Some (''Galera group would have been deleted from''
                              @ '' mysql_galera_hostgroups, however''
                              @ '' check_mode is enabled.'')\<rparr>))"

text \<open>The body of the \<^verbatim>\<open>try\<close> of each state.\<close>

definition present_body :: "env \<Rightarrow> ansible_module \<Rightarrow> result \<Rightarrow> result run" where
  "present_body e self res =
     and_then (check_galera_group_config e self) (\<lambda>found.
     if \<not> found then create_galera_group e self res
     else
       and_then (update_galera_group e self res) (\<lambda>res1.
       and_then (get_galera_group_config e self) (\<lambda>g.
       ret (res1\<lparr>galera_group := Some g\<rparr>))))"

definition absent_body :: "env \<Rightarrow> ansible_module \<Rightarrow> result \<Rightarrow> result run" where
  "absent_body e self res =
     and_then (check_galera_group_config e self) (\<lambda>found.
     if found then delete_galera_group e self res
     else
       ret (res\<lparr>changed := False,
                msg := Some (''The galera group is already absent from the''
                             @ '' mysql_galera_hostgroups memory''
                             @ '' configuration'')\<rparr>))"

text \<open>
  \<^verbatim>\<open>except mysql_driver.Error as e: module.fail_json(msg=prefix % to_native(e))\<close>;
  any other exception is not caught.
\<close>

definition guarded :: "string \<Rightarrow> result run \<Rightarrow> proxysql \<Rightarrow> outcome \<times> proxysql" where
  "guarded prefix body db =
     (case body db of
        (Inl (Driver_Error err), db') \<Rightarrow> (Fail (prefix @ err), db')
      | (Inl Attribute_Error, db') \<Rightarrow> (Uncaught Attribute_Error, db')
      | (Inr res, db') \<Rightarrow> (Exit res, db'))"

definition main :: "env \<Rightarrow> ansible_module \<Rightarrow> proxysql \<Rightarrow> outcome \<times> proxysql" where
  "main e m db =
     (case perform_checks m of
        Some err \<Rightarrow> (Fail err, db)
      | None \<Rightarrow>
         (case mysql_connect e db of
            (Inl (Driver_Error err), db1) \<Rightarrow>
              (Fail (''unable to connect to ProxySQL Admin Module.. '' @ err), db1)
          | (Inl Attribute_Error, db1) \<Rightarrow> (Uncaught Attribute_Error, db1)
          | (Inr _, db1) \<Rightarrow>
             (let res = \<lparr>r_state = state m, changed = False, msg = None, galera_group = None\<rparr> in
              if state m = Present then
                guarded ''unable to modify galera hostgroup.. '' (present_body e m res) db1
              else
                guarded ''unable to delete galera hostgroup.. '' (absent_body e m res) db1)))"

subsection \<open>Notions used to state the properties\<close>

text \<open>An environment in which neither the connection nor any statement raises.\<close>

definition reliable :: "env \<Rightarrow> bool" where
  "reliable e = (connect_error e = None \<and> (\<forall>a t. driver_error e a t = None))"

text \<open>The actions a run has attempted, when it started in \<open>db\<close> and ended in \<open>db'\<close>.\<close>

definition issued :: "proxysql \<Rightarrow> proxysql \<Rightarrow> action list" where
  "issued db db' = drop (length (actions db)) (actions db')"

fun is_write :: "action \<Rightarrow> bool" where
  "is_write (Insert r) = True"
| "is_write (Delete w) = True"
| "is_write (Update_reader_hostgroup v w) = True"
| "is_write (Update_comment v w) = True"
| "is_write _ = False"

fun is_config :: "action \<Rightarrow> bool" where
  "is_config Save_config_to_disk = True"
| "is_config Load_config_to_runtime = True"
| "is_config _ = False"

fun is_insert :: "action \<Rightarrow> bool" where
  "is_insert (Insert r) = True"
| "is_insert _ = False"

definition rows_of :: "ansible_module \<Rightarrow> proxysql \<Rightarrow> galera_row list" where
  "rows_of m db = filter (targets (writer_hostgroup m)) (memory db)"

text \<open>What \<^verbatim>\<open>manage_config\<close> attempts when it acts, and its effect.\<close>

definition config_actions :: "ansible_module \<Rightarrow> action list" where
  "config_actions m =
     (if save_to_disk m then [Save_config_to_disk] else [])
     @ (if load_to_runtime m then [Load_config_to_runtime] else [])"

definition config_effect :: "ansible_module \<Rightarrow> proxysql \<Rightarrow> proxysql" where
  "config_effect m db =
     (let db1 = (if save_to_disk m then persist db else db) in
      if load_to_runtime m then activate db1 else db1)"

text \<open>The two comparisons of \<^verbatim>\<open>update_galera_group\<close> and what follows from them.\<close>

definition comment_differs :: "ansible_module \<Rightarrow> galera_row \<Rightarrow> bool" where
  "comment_differs m cur = (col_comment cur \<noteq> comment m)"

definition reader_differs :: "ansible_module \<Rightarrow> galera_row \<Rightarrow> bool" where
  "reader_differs m cur = (col_reader_hostgroup cur \<noteq> reader_hostgroup m)"

definition update_actions :: "ansible_module \<Rightarrow> galera_row \<Rightarrow> action list" where
  "update_actions m cur =
     (if comment_differs m cur then [Update_comment (comment m) (writer_hostgroup m)] else [])
     @ (if reader_differs m cur
        then [Update_reader_hostgroup (reader_hostgroup m) (writer_hostgroup m)] else [])"

definition updated_table ::
  "ansible_module \<Rightarrow> galera_row \<Rightarrow> galera_row list \<Rightarrow> galera_row list" where
  "updated_table m cur t =
     (let t1 = (if comment_differs m cur
                then update_where (writer_hostgroup m) (\<lambda>r. r\<lparr>col_comment := comment m\<rparr>) t
                else t)
      in if reader_differs m cur
         then update_where (writer_hostgroup m)
                (\<lambda>r. r\<lparr>col_reader_hostgroup := reader_hostgroup m\<rparr>) t1
         else t1)"

text \<open>
  Invariants of a computation, whatever the environment does: \<open>keeps R f\<close> says that
  \<open>f\<close> maintains the relation \<open>R\<close> to a fixed earlier state; \<open>agrees f\<close> says that
  the value and the table that \<open>f\<close> produces depend on the table alone.
\<close>

definition keeps :: "(proxysql \<Rightarrow> proxysql \<Rightarrow> bool) \<Rightarrow> 'a run \<Rightarrow> bool" where
  "keeps R f = (\<forall>db0 db. R db0 db \<longrightarrow> R db0 (snd (f db)))"


definition same_others :: "int \<Rightarrow> proxysql \<Rightarrow> proxysql \<Rightarrow> bool" where
  "same_others w db0 db = (delete_where w (memory db) = delete_where w (memory db0))"

definition attempts_only :: "(action \<Rightarrow> bool) \<Rightarrow> proxysql \<Rightarrow> proxysql \<Rightarrow> bool" where
  "attempts_only P db0 db = (\<exists>xs. actions db = actions db0 @ xs \<and> list_all P xs)"

definition untouched :: "proxysql \<Rightarrow> proxysql \<Rightarrow> bool" where
  "untouched db0 db =
     (memory db = memory db0 \<and> disk db = disk db0 \<and> runtime db = runtime db0
      \<and> attempts_only (\<lambda>a. \<not> is_write a \<and> \<not> is_config a) db0 db)"

text \<open>
  \<^verbatim>\<open>writer_hostgroup\<close> is the key of the table: \<open>unique_keys t\<close> says that no two
  rows of \<open>t\<close> share it. \<open>same_memory\<close> and \<open>still_unique\<close> are the relations with
  which its preservation is proved.
\<close>

definition unique_keys :: "galera_row list \<Rightarrow> bool" where
  "unique_keys t = distinct (map col_writer_hostgroup t)"

definition same_memory :: "proxysql \<Rightarrow> proxysql \<Rightarrow> bool" where
  "same_memory db0 db = (memory db = memory db0)"

definition still_unique :: "proxysql \<Rightarrow> proxysql \<Rightarrow> bool" where
  "still_unique db0 db = (unique_keys (memory db0) \<longrightarrow> unique_keys (memory db))"

text \<open>
  \<open>step_ok R a\<close>: attempting the action \<open>a\<close>, with or without effect, maintains \<open>R\<close>.
  \<open>may_attempt m a\<close>: the actions that the module can attempt with the parameters \<open>m\<close>.
\<close>

definition step_ok :: "(proxysql \<Rightarrow> proxysql \<Rightarrow> bool) \<Rightarrow> action \<Rightarrow> bool" where
  "step_ok R a =
     (\<forall>db0 db. R db0 db \<longrightarrow>
        R db0 (db\<lparr>actions := actions db @ [a]\<rparr>) \<and>
        R db0 (apply_action a (db\<lparr>actions := actions db @ [a]\<rparr>)))"

definition may_attempt :: "ansible_module \<Rightarrow> action \<Rightarrow> bool" where
  "may_attempt m a =
     (a = Connect \<or> a = Select_count (writer_hostgroup m) \<or> a = Select_row (writer_hostgroup m)
      \<or> (\<not> check_mode m \<and>
           (a = Insert (new_row m) \<or> a = Delete (writer_hostgroup m)
            \<or> a = Update_comment (comment m) (writer_hostgroup m)
            \<or> a = Update_reader_hostgroup (reader_hostgroup m) (writer_hostgroup m)
            \<or> (save_to_disk m \<and> a = Save_config_to_disk)
            \<or> (load_to_runtime m \<and> a = Load_config_to_runtime))))"

text \<open>\<open>faithful f f'\<close>: whenever \<open>f\<close> returns normally, \<open>f'\<close> returns the same.\<close>

definition faithful :: "'a run \<Rightarrow> 'a run \<Rightarrow> bool" where
  "faithful f f' = (\<forall>db x db'. f db = (Inr x, db') \<longrightarrow> f' db = (Inr x, db'))"

text \<open>
  The row that the declared configuration describes, in the words of the specification:
  every column equals the parameter of the same name, and a comment that is
  \<^verbatim>\<open>None\<close> or empty is stored as the empty string.
\<close>

definition declared_row :: "ansible_module \<Rightarrow> galera_row" where
  "declared_row m =
     \<lparr>col_writer_hostgroup = writer_hostgroup m,
      col_backup_writer_hostgroup = backup_writer_hostgroup m,
      col_reader_hostgroup = reader_hostgroup m,
      col_offline_hostgroup = offline_hostgroup m,
      col_active = active m,
      col_max_writers = max_writers m,
      col_writer_is_also_reader = writer_is_also_reader m,
      col_max_transactions_behind = max_transactions_behind m,
      col_comment = Some (case comment m of None \<Rightarrow> '''' | Some c \<Rightarrow> c)\<rparr>"

text \<open>Whether a run ended in \<^verbatim>\<open>exit_json\<close>, and whether with \<^verbatim>\<open>changed=True\<close>.\<close>

definition exits :: "outcome \<Rightarrow> bool" where
  "exits out = (case out of Exit r \<Rightarrow> True | Fail err \<Rightarrow> False | Uncaught x \<Rightarrow> False)"

definition reports_changed :: "outcome \<Rightarrow> bool" where
  "reports_changed out =
     (case out of Exit r \<Rightarrow> changed r | Fail err \<Rightarrow> False | Uncaught x \<Rightarrow> False)"

subsection \<open>Concrete inputs\<close>

definition calm :: env where
  "calm = \<lparr>connect_error = None, driver_error = (\<lambda>a t. None)\<rparr>"

definition empty_db :: proxysql where
  "empty_db = \<lparr>memory = [], disk = [], runtime = [], actions = []\<rparr>"

definition group_1 :: ansible_module where
  "group_1 =
     \<lparr>writer_hostgroup = 1, backup_writer_hostgroup = 2, reader_hostgroup = 3,
      offline_hostgroup = 4, active = 1, max_writers = 1, writer_is_also_reader = 0,
      max_transactions_behind = 0, comment = Some ''galera'', state = Present,
      save_to_disk = True, load_to_runtime = True, check_mode = False\<rparr>"

definition row_1 :: galera_row where
  "row_1 =
     \<lparr>col_writer_hostgroup = 1, col_backup_writer_hostgroup = 2, col_reader_hostgroup = 3,
      col_offline_hostgroup = 4, col_active = 1, col_max_writers = 1,
      col_writer_is_also_reader = 0, col_max_transactions_behind = 0,
      col_comment = Some ''galera''\<rparr>"

definition row_9 :: galera_row where
  "row_9 =
     \<lparr>col_writer_hostgroup = 9, col_backup_writer_hostgroup = 10, col_reader_hostgroup = 11,
      col_offline_hostgroup = 12, col_active = 1, col_max_writers = 1,
      col_writer_is_also_reader = 0, col_max_transactions_behind = 0,
      col_comment = Some ''other''\<rparr>"

definition db_with :: "galera_row list \<Rightarrow> proxysql" where
  "db_with t = \<lparr>memory = t, disk = [], runtime = [], actions = []\<rparr>"

section \<open>Runs in a reliable environment\<close>

text \<open>
  When nothing raises, each branch of \<^verbatim>\<open>main\<close> has a closed form: the result, the
  final state and the actions attempted, in order.
\<close>

lemma reliable_calm: "reliable calm"
  by (simp add: reliable_def calm_def)

lemma execute_reliable:
  "reliable e \<Longrightarrow>
   execute e a db =
     (Inr (result_set a (memory db)), apply_action a (db\<lparr>actions := actions db @ [a]\<rparr>))"
  by (simp add: execute_def reliable_def)

lemma mysql_connect_reliable:
  "reliable e \<Longrightarrow> mysql_connect e db = (Inr (), db\<lparr>actions := actions db @ [Connect]\<rparr>)"
  by (simp add: mysql_connect_def reliable_def)

lemma manage_config_reliable:
  "reliable e \<Longrightarrow>
   manage_config e m st db =
     (Inr (), if st \<and> \<not> check_mode m
              then (config_effect m db)\<lparr>actions := actions db @ config_actions m\<rparr> else db)"
  by (simp add: manage_config_def save_config_to_disk_def load_config_to_runtime_def
      execute_reliable and_then_def ret_def config_effect_def config_actions_def
      persist_def activate_def)

lemma check_reliable:
  "reliable e \<Longrightarrow>
   check_galera_group_config e m db =
     (Inr (rows_of m db \<noteq> []),
      db\<lparr>actions := actions db @ [Select_count (writer_hostgroup m)]\<rparr>)"
  by (simp add: check_galera_group_config_def execute_reliable and_then_def ret_def rows_of_def)

lemma get_reliable:
  "reliable e \<Longrightarrow>
   get_galera_group_config e m db =
     (Inr (fetchone (rows_of m db)),
      db\<lparr>actions := actions db @ [Select_row (writer_hostgroup m)]\<rparr>)"
  by (simp add: get_galera_group_config_def execute_reliable and_then_def ret_def rows_of_def)

lemma filter_update_where:
  "(\<And>r. col_writer_hostgroup (f r) = col_writer_hostgroup r) \<Longrightarrow>
   filter (targets w) (update_where w f t) = map f (filter (targets w) t)"
  by (induction t) (auto simp: update_where_def targets_def)

lemmas reliable_simps =
  main_def mysql_connect_reliable guarded_def present_body_def absent_body_def check_reliable
  and_then_def ret_def get_reliable manage_config_reliable execute_reliable rows_of_def
  fetchone_def Let_def

lemma main_invalid:
  "perform_checks m = Some err \<Longrightarrow> main e m db = (Fail err, db)"
  by (simp add: main_def)

lemma main_insert:
  assumes "reliable e" "perform_checks m = None" "state m = Present" "\<not> check_mode m"
    and "rows_of m db = []"
  shows "main e m db =
    (Exit \<lparr>r_state = Present, changed = True, msg = Some ''Added server to mysql_hosts'',
           galera_group = Some (Some (new_row m))\<rparr>,
     (config_effect m (db\<lparr>memory := memory db @ [new_row m]\<rparr>))
       \<lparr>actions := actions db @ [Connect, Select_count (writer_hostgroup m),
                     Insert (new_row m), Select_row (writer_hostgroup m)]
                   @ config_actions m\<rparr>)"
  using assms
  by (simp add: reliable_simps create_galera_group_def create_galera_group_config_def
      targets_def new_row_def config_effect_def persist_def activate_def config_actions_def)

lemma main_insert_check:
  assumes "reliable e" "perform_checks m = None" "state m = Present" "check_mode m"
    and "rows_of m db = []"
  shows "main e m db =
    (Exit \<lparr>r_state = Present, changed = True,
           msg = Some (''Galera group would have been added to''
                       @ '' mysql_galera_hostgroups, however'' @ '' check_mode is enabled.''),
           galera_group = None\<rparr>,
     db\<lparr>actions := actions db @ [Connect, Select_count (writer_hostgroup m)]\<rparr>)"
  using assms
  by (simp add: reliable_simps create_galera_group_def)

lemma main_update:
  assumes "reliable e" "perform_checks m = None" "state m = Present" "\<not> check_mode m"
    and "rows_of m db = cur # rest"
  shows "main e m db =
    (Exit \<lparr>r_state = Present,
           changed = (comment_differs m cur \<or> reader_differs m cur),
           msg = (if comment_differs m cur \<or> reader_differs m cur
                  then Some ''Updated galera hostgroups'' else None),
           galera_group =
             Some (Some (cur\<lparr>col_reader_hostgroup := reader_hostgroup m,
                              col_comment := comment m\<rparr>))\<rparr>,
     (if comment_differs m cur \<or> reader_differs m cur
      then config_effect m (db\<lparr>memory := updated_table m cur (memory db)\<rparr>)
      else db)
       \<lparr>actions := actions db @ [Connect, Select_count (writer_hostgroup m),
                     Select_row (writer_hostgroup m)] @ update_actions m cur
                   @ [Select_row (writer_hostgroup m)]
                   @ (if comment_differs m cur \<or> reader_differs m cur
                      then config_actions m else [])
                   @ [Select_row (writer_hostgroup m)]\<rparr>)"
  using assms
  by (auto simp add: reliable_simps update_galera_group_def update_comment_def
      update_reader_hostgroup_def filter_update_where config_effect_def persist_def
      activate_def config_actions_def comment_differs_def reader_differs_def
      update_actions_def updated_table_def)

lemma main_update_check:
  assumes "reliable e" "perform_checks m = None" "state m = Present" "check_mode m"
    and "rows_of m db = cur # rest"
  shows "main e m db =
    (Exit \<lparr>r_state = Present,
           changed = (comment_differs m cur \<or> reader_differs m cur),
           msg = (if comment_differs m cur \<or> reader_differs m cur
                  then Some ''Updated galera hostgroups in check_mode'' else None),
           galera_group = Some (Some cur)\<rparr>,
     db\<lparr>actions := actions db @ [Connect, Select_count (writer_hostgroup m),
                     Select_row (writer_hostgroup m), Select_row (writer_hostgroup m),
                     Select_row (writer_hostgroup m)]\<rparr>)"
  using assms
  by (auto simp add: reliable_simps update_galera_group_def comment_differs_def
      reader_differs_def)

lemma main_delete:
  assumes "reliable e" "perform_checks m = None" "state m = Absent" "\<not> check_mode m"
    and "rows_of m db = cur # rest"
  shows "main e m db =
    (Exit \<lparr>r_state = Absent, changed = True, msg = Some ''Deleted server from mysql_hosts'',
           galera_group = Some (Some cur)\<rparr>,
     (config_effect m (db\<lparr>memory := delete_where (writer_hostgroup m) (memory db)\<rparr>))
       \<lparr>actions := actions db @ [Connect, Select_count (writer_hostgroup m),
                     Select_row (writer_hostgroup m), Delete (writer_hostgroup m)]
                   @ config_actions m\<rparr>)"
  using assms
  by (simp add: reliable_simps delete_galera_group_def delete_galera_group_config_def
      config_effect_def persist_def activate_def config_actions_def)

lemma main_delete_check:
  assumes "reliable e" "perform_checks m = None" "state m = Absent" "check_mode m"
    and "rows_of m db = cur # rest"
  shows "main e m db =
    (Exit \<lparr>r_state = Absent, changed = True,
           msg = Some (''Galera group would have been deleted from''
                       @ '' mysql_galera_hostgroups, however'' @ '' check_mode is enabled.''),
           galera_group = None\<rparr>,
     db\<lparr>actions := actions db @ [Connect, Select_count (writer_hostgroup m)]\<rparr>)"
  using assms
  by (simp add: reliable_simps delete_galera_group_def)

lemma main_absent:
  assumes "reliable e" "perform_checks m = None" "state m = Absent"
    and "rows_of m db = []"
  shows "main e m db =
    (Exit \<lparr>r_state = Absent, changed = False,
           msg = Some (''The galera group is already absent from the''
                       @ '' mysql_galera_hostgroups memory'' @ '' configuration''),
           galera_group = None\<rparr>,
     db\<lparr>actions := actions db @ [Connect, Select_count (writer_hostgroup m)]\<rparr>)"
  using assms
  by (simp add: reliable_simps)

lemma run_cases:
  obtains (ins) "state m = Present" "rows_of m db = []" "\<not> check_mode m"
  | (ins_check) "state m = Present" "rows_of m db = []" "check_mode m"
  | (upd) cur rest where "state m = Present" "rows_of m db = cur # rest" "\<not> check_mode m"
  | (upd_check) cur rest where "state m = Present" "rows_of m db = cur # rest" "check_mode m"
  | (del) cur rest where "state m = Absent" "rows_of m db = cur # rest" "\<not> check_mode m"
  | (del_check) cur rest where "state m = Absent" "rows_of m db = cur # rest" "check_mode m"
  | (noop) "state m = Absent" "rows_of m db = []"
  by (cases "state m"; cases "rows_of m db"; cases "check_mode m") auto

section \<open>Runs in any environment\<close>

subsection \<open>Relations that every attempted action maintains\<close>

lemma keeps_ret: "keeps R (ret x)"
  by (simp add: keeps_def ret_def)

lemma keeps_raise: "keeps R (raise x)"
  by (simp add: keeps_def raise_def)

lemma keeps_and_then:
  assumes "keeps R f" and "\<And>x. keeps R (g x)"
  shows "keeps R (and_then f g)"
proof -
  have "R db0 (snd (and_then f g db))" if "R db0 db" for db0 db
  proof (cases "f db")
    case (Pair v db')
    from that assms(1) have "R db0 (snd (f db))" by (simp add: keeps_def)
    with Pair have mid: "R db0 db'" by simp
    show ?thesis
    proof (cases v)
      case (Inl err)
      with Pair mid show ?thesis by (simp add: and_then_def)
    next
      case (Inr x)
      from assms(2) mid have "R db0 (snd (g x db'))" by (simp add: keeps_def)
      with Pair Inr show ?thesis by (simp add: and_then_def)
    qed
  qed
  then show ?thesis by (simp add: keeps_def)
qed

lemma keeps_execute: "step_ok R a \<Longrightarrow> keeps R (execute e a)"
  by (auto simp: keeps_def execute_def step_ok_def Let_def split: option.splits)

lemma keeps_connect: "step_ok R Connect \<Longrightarrow> keeps R (mysql_connect e)"
  by (auto simp: keeps_def mysql_connect_def step_ok_def Let_def split: option.splits)

lemma keeps_check:
  "step_ok R (Select_count (writer_hostgroup m)) \<Longrightarrow> keeps R (check_galera_group_config e m)"
  unfolding check_galera_group_config_def
  by (intro keeps_and_then keeps_ret keeps_execute)

lemma keeps_get:
  "step_ok R (Select_row (writer_hostgroup m)) \<Longrightarrow> keeps R (get_galera_group_config e m)"
  unfolding get_galera_group_config_def
  by (intro keeps_and_then keeps_ret keeps_execute)

lemma keeps_manage_config:
  assumes "\<not> check_mode m \<Longrightarrow> save_to_disk m \<Longrightarrow> step_ok R Save_config_to_disk"
      and "\<not> check_mode m \<Longrightarrow> load_to_runtime m \<Longrightarrow> step_ok R Load_config_to_runtime"
  shows "keeps R (manage_config e m st)"
  unfolding manage_config_def save_config_to_disk_def load_config_to_runtime_def
  using assms by (auto intro!: keeps_and_then keeps_ret keeps_execute)

lemma keeps_create:
  assumes "\<not> check_mode m \<Longrightarrow> step_ok R (Insert (new_row m))"
      and "step_ok R (Select_row (writer_hostgroup m))"
      and "\<not> check_mode m \<Longrightarrow> save_to_disk m \<Longrightarrow> step_ok R Save_config_to_disk"
      and "\<not> check_mode m \<Longrightarrow> load_to_runtime m \<Longrightarrow> step_ok R Load_config_to_runtime"
  shows "keeps R (create_galera_group e m res)"
  unfolding create_galera_group_def create_galera_group_config_def Let_def
  using assms
  by (auto intro!: keeps_and_then keeps_ret keeps_execute keeps_get keeps_manage_config)

lemma keeps_delete:
  assumes "\<not> check_mode m \<Longrightarrow> step_ok R (Delete (writer_hostgroup m))"
      and "step_ok R (Select_row (writer_hostgroup m))"
      and "\<not> check_mode m \<Longrightarrow> save_to_disk m \<Longrightarrow> step_ok R Save_config_to_disk"
      and "\<not> check_mode m \<Longrightarrow> load_to_runtime m \<Longrightarrow> step_ok R Load_config_to_runtime"
  shows "keeps R (delete_galera_group e m res)"
  unfolding delete_galera_group_def delete_galera_group_config_def Let_def
  using assms
  by (auto intro!: keeps_and_then keeps_ret keeps_execute keeps_get keeps_manage_config)

lemma keeps_update:
  assumes "\<not> check_mode m \<Longrightarrow> step_ok R (Update_comment (comment m) (writer_hostgroup m))"
      and "\<not> check_mode m \<Longrightarrow>
           step_ok R (Update_reader_hostgroup (reader_hostgroup m) (writer_hostgroup m))"
      and "step_ok R (Select_row (writer_hostgroup m))"
      and "\<not> check_mode m \<Longrightarrow> save_to_disk m \<Longrightarrow> step_ok R Save_config_to_disk"
      and "\<not> check_mode m \<Longrightarrow> load_to_runtime m \<Longrightarrow> step_ok R Load_config_to_runtime"
  shows "keeps R (update_galera_group e m res)"
  unfolding update_galera_group_def update_comment_def update_reader_hostgroup_def Let_def
  using assms
  by (auto intro!: keeps_and_then keeps_ret keeps_raise keeps_execute keeps_get
      keeps_manage_config split: option.splits)

lemma keeps_guarded:
  assumes "keeps R body" "R db0 db"
  shows "R db0 (snd (guarded p body db))"
proof -
  from assms have "R db0 (snd (body db))" by (simp add: keeps_def)
  then show ?thesis
    by (cases "body db") (auto simp: guarded_def split: sum.splits exn.splits)
qed

text \<open>
  A relation that every action the module may attempt maintains holds between the state
  before a run and the state after it, however the run ends.
\<close>

lemma main_keeps:
  assumes ok: "\<And>a. may_attempt m a \<Longrightarrow> step_ok R a" and start: "R db0 db"
  shows "R db0 (snd (main e m db))"
proof (cases "perform_checks m")
  case (Some err)
  with start show ?thesis by (simp add: main_def)
next
  case None
  have sel: "step_ok R (Select_row (writer_hostgroup m))"
    "step_ok R (Select_count (writer_hostgroup m))"
    by (rule ok, simp add: may_attempt_def)+
  have wr: "step_ok R (Insert (new_row m))" "step_ok R (Delete (writer_hostgroup m))"
     "step_ok R (Update_comment (comment m) (writer_hostgroup m))"
     "step_ok R (Update_reader_hostgroup (reader_hostgroup m) (writer_hostgroup m))"
    if "\<not> check_mode m"
    using that by (auto intro!: ok simp: may_attempt_def)
  have cfg: "step_ok R Save_config_to_disk" if "\<not> check_mode m" "save_to_disk m"
    using that by (auto intro!: ok simp: may_attempt_def)
  have cfg2: "step_ok R Load_config_to_runtime" if "\<not> check_mode m" "load_to_runtime m"
    using that by (auto intro!: ok simp: may_attempt_def)
  have "step_ok R Connect" by (rule ok) (simp add: may_attempt_def)
  then have "keeps R (mysql_connect e)" by (rule keeps_connect)
  with start have c: "R db0 (snd (mysql_connect e db))" by (simp add: keeps_def)
  have p: "keeps R (present_body e m res)" for res
    unfolding present_body_def
    by (auto intro!: keeps_and_then keeps_ret keeps_check keeps_get keeps_create keeps_update
        sel wr cfg cfg2)
  have a: "keeps R (absent_body e m res)" for res
    unfolding absent_body_def
    by (auto intro!: keeps_and_then keeps_ret keeps_check keeps_delete sel wr cfg cfg2)
  show ?thesis
  proof (cases "mysql_connect e db")
    case (Pair v db1)
    with c have c1: "R db0 db1" by simp
    show ?thesis
    proof (cases v)
      case (Inl x)
      with Pair None c1 show ?thesis by (cases x) (simp_all add: main_def)
    next
      case (Inr u)
      with Pair None c1 show ?thesis
        by (simp add: main_def Let_def keeps_guarded [OF p] keeps_guarded [OF a])
    qed
  qed
qed

subsection \<open>A run that exits is a run without errors\<close>

lemma faithful_refl: "faithful f f"
  by (simp add: faithful_def)

lemma faithful_and_then:
  assumes "faithful f f'" and "\<And>x. faithful (g x) (g' x)"
  shows "faithful (and_then f g) (and_then f' g')"
proof -
  have "and_then f' g' db = (Inr y, db'')" if "and_then f g db = (Inr y, db'')" for db y db''
  proof (cases "f db")
    case (Pair v db')
    show ?thesis
    proof (cases v)
      case (Inl err)
      with Pair that show ?thesis by (simp add: and_then_def)
    next
      case (Inr x)
      with Pair assms(1) have "f' db = (Inr x, db')" by (simp add: faithful_def)
      moreover from Pair Inr that have "g x db' = (Inr y, db'')" by (simp add: and_then_def)
      with assms(2) have "g' x db' = (Inr y, db'')" by (simp add: faithful_def)
      ultimately show ?thesis by (simp add: and_then_def)
    qed
  qed
  then show ?thesis by (simp add: faithful_def)
qed

lemma faithful_execute: "reliable e' \<Longrightarrow> faithful (execute e a) (execute e' a)"
  by (auto simp: faithful_def execute_def reliable_def Let_def split: option.splits)

lemma faithful_connect: "reliable e' \<Longrightarrow> faithful (mysql_connect e) (mysql_connect e')"
  by (auto simp: faithful_def mysql_connect_def reliable_def Let_def split: option.splits)

lemma faithful_check:
  "reliable e' \<Longrightarrow> faithful (check_galera_group_config e m) (check_galera_group_config e' m)"
  unfolding check_galera_group_config_def
  by (intro faithful_and_then faithful_refl faithful_execute)

lemma faithful_get:
  "reliable e' \<Longrightarrow> faithful (get_galera_group_config e m) (get_galera_group_config e' m)"
  unfolding get_galera_group_config_def
  by (intro faithful_and_then faithful_refl faithful_execute)

lemma faithful_manage:
  "reliable e' \<Longrightarrow> faithful (manage_config e m st) (manage_config e' m st)"
  unfolding manage_config_def save_config_to_disk_def load_config_to_runtime_def
  by (auto intro!: faithful_and_then faithful_refl faithful_execute)

lemma faithful_create:
  "reliable e' \<Longrightarrow> faithful (create_galera_group e m res) (create_galera_group e' m res)"
  unfolding create_galera_group_def create_galera_group_config_def Let_def
  by (auto intro!: faithful_and_then faithful_refl faithful_execute faithful_get
      faithful_manage)

lemma faithful_delete:
  "reliable e' \<Longrightarrow> faithful (delete_galera_group e m res) (delete_galera_group e' m res)"
  unfolding delete_galera_group_def delete_galera_group_config_def Let_def
  by (auto intro!: faithful_and_then faithful_refl faithful_execute faithful_get
      faithful_manage)

lemma faithful_update:
  "reliable e' \<Longrightarrow> faithful (update_galera_group e m res) (update_galera_group e' m res)"
  unfolding update_galera_group_def update_comment_def update_reader_hostgroup_def Let_def
  by (auto intro!: faithful_and_then faithful_refl faithful_execute faithful_get
      faithful_manage split: option.splits)

lemma faithful_present:
  "reliable e' \<Longrightarrow> faithful (present_body e m res) (present_body e' m res)"
  unfolding present_body_def
  by (auto intro!: faithful_and_then faithful_refl faithful_check faithful_get
      faithful_create faithful_update)

lemma faithful_absent:
  "reliable e' \<Longrightarrow> faithful (absent_body e m res) (absent_body e' m res)"
  unfolding absent_body_def
  by (auto intro!: faithful_and_then faithful_refl faithful_check faithful_delete)

lemma guarded_Exit:
  "guarded p body db = (Exit r, db') \<longleftrightarrow> body db = (Inr r, db')"
  by (cases "body db") (auto simp: guarded_def split: sum.splits exn.splits)

text \<open>
  If a run ends in \<^verbatim>\<open>exit_json\<close>, the parameters passed the checks and the same run
  in any reliable environment ends in the same way.
\<close>

lemma main_exit_reliable:
  assumes "main e m db = (Exit r, db')" and "reliable e'"
  shows "perform_checks m = None \<and> main e' m db = (Exit r, db')"
proof -
  let ?res = "\<lparr>r_state = state m, changed = False, msg = None, galera_group = None\<rparr>"
  from assms(1) have pc: "perform_checks m = None"
    by (cases "perform_checks m") (simp_all add: main_def)
  obtain v db1 where c: "mysql_connect e db = (v, db1)" by (cases "mysql_connect e db")
  with assms(1) pc obtain u where v: "v = Inr u"
    by (cases v) (auto simp: main_def split: exn.splits)
  with c assms(2) have c': "mysql_connect e' db = (Inr u, db1)"
    using faithful_connect [of e' e] by (simp add: faithful_def)
  have "main e' m db = (Exit r, db')"
  proof (cases "state m = Present")
    case True
    with assms(1) pc c v have "present_body e m ?res db1 = (Inr r, db')"
      by (simp add: main_def guarded_Exit)
    with faithful_present [OF assms(2), of e m] have "present_body e' m ?res db1 = (Inr r, db')"
      by (simp add: faithful_def)
    with True pc c' show ?thesis by (simp add: main_def guarded_Exit)
  next
    case False
    with assms(1) pc c v have "absent_body e m ?res db1 = (Inr r, db')"
      by (simp add: main_def guarded_Exit)
    with faithful_absent [OF assms(2), of e m] have "absent_body e' m ?res db1 = (Inr r, db')"
      by (simp add: faithful_def)
    with False pc c' show ?thesis by (simp add: main_def guarded_Exit)
  qed
  with pc show ?thesis by simp
qed

subsection \<open>The outcome depends on the table alone\<close>


















section \<open>Facts about tables, actions and the concrete inputs\<close>

lemma issued_append [simp]: "issued db (db'\<lparr>actions := actions db @ xs\<rparr>) = xs"
  by (simp add: issued_def)

lemma issued_self [simp]: "issued db db = []"
  by (simp add: issued_def)

lemma actions_apply_action [simp]: "actions (apply_action a db) = actions db"
  by (cases a) (simp_all add: persist_def activate_def)

lemma attempts_only_issued:
  "attempts_only P db0 db \<Longrightarrow> list_all P (issued db0 db)"
  by (auto simp: attempts_only_def issued_def)

lemma step_ok_attempts_only: "P a \<Longrightarrow> step_ok (attempts_only P) a"
  by (auto simp: step_ok_def attempts_only_def)

lemma perform_checks_None:
  "perform_checks m = None \<longleftrightarrow>
     \<not> (writer_hostgroup m < 0 \<or> reader_hostgroup m < 0
        \<or> reader_hostgroup m = writer_hostgroup m)"
  by (auto simp: perform_checks_def)

lemma delete_where_update_where:
  "(\<And>r. col_writer_hostgroup (f r) = col_writer_hostgroup r) \<Longrightarrow>
   delete_where w (update_where w f t) = delete_where w t"
  by (induction t) (auto simp: update_where_def delete_where_def targets_def)

lemma delete_where_idem: "delete_where w (delete_where w t) = delete_where w t"
  by (simp add: delete_where_def)

lemma delete_where_new_row:
  "delete_where (writer_hostgroup m) (t @ [new_row m]) = delete_where (writer_hostgroup m) t"
  by (simp add: delete_where_def targets_def new_row_def)

lemma rows_of_delete_where: "filter (targets w) (delete_where w t) = []"
  by (simp add: delete_where_def)

lemma delete_where_differs:
  assumes "filter (targets w) t = cur # rest"
  shows "delete_where w t \<noteq> t"
proof
  assume "delete_where w t = t"
  then have "filter (targets w) (delete_where w t) = filter (targets w) t" by simp
  with assms show False by (simp add: rows_of_delete_where)
qed

lemma new_row_declared: "new_row m = declared_row m"
  by (cases "comment m") (simp_all add: new_row_def declared_row_def comment_or_empty_def)

lemma memory_config_effect [simp]: "memory (config_effect m db) = memory db"
  by (simp add: config_effect_def persist_def activate_def Let_def)

lemma rows_of_actions [simp]: "rows_of m (db\<lparr>actions := xs\<rparr>) = rows_of m db"
  by (simp add: rows_of_def)

lemma rows_of_config_effect [simp]: "rows_of m (config_effect m' db) = rows_of m db"
  by (simp add: rows_of_def)

lemma filter_is_config_updates [simp]: "filter is_config (update_actions m cur) = []"
  by (simp add: update_actions_def)

lemma filter_is_config_config [simp]: "filter is_config (config_actions m) = config_actions m"
  by (simp add: config_actions_def)

lemma filter_is_write_updates [simp]:
  "filter is_write (update_actions m cur) = update_actions m cur"
  by (simp add: update_actions_def)

lemma filter_is_write_config [simp]: "filter is_write (config_actions m) = []"
  by (simp add: config_actions_def)

lemma length_updated_table [simp]: "length (updated_table m cur t) = length t"
  by (simp add: updated_table_def update_where_def Let_def)

lemma fetchone_SomeD: "fetchone rows = Some r \<Longrightarrow> \<exists>rest. rows = r # rest"
  by (cases rows) (simp_all add: fetchone_def)

lemmas example_defs = group_1_def row_1_def row_9_def empty_db_def db_with_def rows_of_def
  targets_def perform_checks_def issued_def

section \<open>The claims\<close>

subsection \<open>Validation\<close>

text \<open>
  Claim C9. For every parameter set in which \<^verbatim>\<open>writer_hostgroup\<close> is negative, or
  \<^verbatim>\<open>reader_hostgroup\<close> is negative, or the two are equal, the module fails with the
  message of the first check that the parameters violate, before it attempts a connection
  or a query: the state of the admin interface, its list of attempted actions included,
  is unchanged. This holds in every environment.
\<close>

theorem invalid_parameters_fail_first:
  assumes "writer_hostgroup m < 0 \<or> reader_hostgroup m < 0
           \<or> reader_hostgroup m = writer_hostgroup m"
  shows "main e m db =
     (Fail (if writer_hostgroup m < 0
            then ''writer_hostgroup must be a integer greater than or equal to 0''
            else if reader_hostgroup m < 0
            then ''reader_hostgroup must be an integer greater than or equal to 0''
            else ''reader_hostgroup and writer_hostgroup must be different integer values''),
      db)
     \<and> issued db (snd (main e m db)) = []"
  using assms by (auto simp: main_def perform_checks_def)

theorem invalid_parameters_fail_first_witness:
  "(writer_hostgroup (group_1\<lparr>reader_hostgroup := - 5\<rparr>) < 0
    \<or> reader_hostgroup (group_1\<lparr>reader_hostgroup := - 5\<rparr>) < 0
    \<or> reader_hostgroup (group_1\<lparr>reader_hostgroup := - 5\<rparr>)
        = writer_hostgroup (group_1\<lparr>reader_hostgroup := - 5\<rparr>))
   \<and> main calm (group_1\<lparr>reader_hostgroup := - 5\<rparr>) (db_with [row_9]) =
       (Fail ''reader_hostgroup must be an integer greater than or equal to 0'',
        db_with [row_9])"
proof -
  have h: "writer_hostgroup (group_1\<lparr>reader_hostgroup := - 5\<rparr>) < 0
    \<or> reader_hostgroup (group_1\<lparr>reader_hostgroup := - 5\<rparr>) < 0
    \<or> reader_hostgroup (group_1\<lparr>reader_hostgroup := - 5\<rparr>)
        = writer_hostgroup (group_1\<lparr>reader_hostgroup := - 5\<rparr>)"
    by (simp add: group_1_def)
  from invalid_parameters_fail_first [OF h, of calm "db_with [row_9]"] h
  show ?thesis by (simp add: group_1_def)
qed

subsection \<open>Frame and check mode\<close>

subsubsection \<open>The key stays unique\<close>

lemma keys_update_where:
  "(\<And>r. col_writer_hostgroup (f r) = col_writer_hostgroup r) \<Longrightarrow>
   map col_writer_hostgroup (update_where w f t) = map col_writer_hostgroup t"
  by (induction t) (simp_all add: update_where_def)

lemma unique_keys_delete_where: "unique_keys t \<Longrightarrow> unique_keys (delete_where w t)"
  by (simp add: unique_keys_def delete_where_def distinct_map_filter)

lemma unique_keys_insert:
  assumes "filter (targets w) t = []" "unique_keys t" "col_writer_hostgroup r = w"
  shows "unique_keys (t @ [r])"
proof -
  from assms(1) have "\<forall>x \<in> set t. col_writer_hostgroup x \<noteq> w"
    by (auto simp: filter_empty_conv targets_def)
  with assms(2,3) show ?thesis by (auto simp: unique_keys_def)
qed

lemma step_ok_same_memory:
  "a = Connect \<or> a = Select_count w \<or> a = Select_row w' \<or> a = Save_config_to_disk
   \<or> a = Load_config_to_runtime \<Longrightarrow> step_ok same_memory a"
  by (auto simp: step_ok_def same_memory_def persist_def activate_def)

lemma step_ok_still_unique:
  "\<not> is_insert a \<Longrightarrow> step_ok still_unique a"
  by (cases a)
    (auto simp: step_ok_def still_unique_def persist_def activate_def delete_where_def
      distinct_map_filter unique_keys_def keys_update_where)

lemma check_value:
  assumes "check_galera_group_config e m db = (Inr found, db1)"
  shows "found = (rows_of m db \<noteq> [])"
proof (cases "driver_error e (Select_count (writer_hostgroup m)) (memory db)")
  case None
  with assms show ?thesis
    by (auto simp: check_galera_group_config_def and_then_def ret_def execute_def rows_of_def)
next
  case (Some err)
  with assms show ?thesis
    by (simp add: check_galera_group_config_def and_then_def execute_def)
qed

lemma check_memory: "memory (snd (check_galera_group_config e m db)) = memory db"
proof -
  have "keeps same_memory (check_galera_group_config e m)"
    by (rule keeps_check) (simp add: step_ok_same_memory)
  then show ?thesis by (simp add: keeps_def same_memory_def)
qed

lemma insert_memory:
  "memory (snd (create_galera_group_config e m db)) = memory db
   \<or> memory (snd (create_galera_group_config e m db)) = memory db @ [new_row m]"
  by (cases "driver_error e (Insert (new_row m)) (memory db)")
    (simp_all add: create_galera_group_config_def and_then_def execute_def ret_def)

lemma create_memory:
  "memory (snd (create_galera_group e m res db)) = memory db
   \<or> memory (snd (create_galera_group e m res db)) = memory db @ [new_row m]"
proof (cases "check_mode m")
  case True
  then show ?thesis by (simp add: create_galera_group_def ret_def)
next
  case False
  define tail where "tail = (\<lambda>c.
        let res1 = res\<lparr>changed := c, msg := Some ''Added server to mysql_hosts''\<rparr> in
        and_then (get_galera_group_config e m) (\<lambda>g.
        let res2 = res1\<lparr>galera_group := Some g\<rparr> in
        and_then (manage_config e m (changed res2)) (\<lambda>_. ret res2)))"
  from False have cr: "create_galera_group e m res
        = and_then (create_galera_group_config e m) tail"
    by (simp add: create_galera_group_def tail_def)
  have "keeps same_memory (tail c)" for c
    unfolding tail_def Let_def
    by (intro keeps_and_then keeps_ret keeps_get keeps_manage_config)
      (simp_all add: step_ok_same_memory)
  then have k: "memory (snd (tail c db')) = memory db'" for c db'
    by (simp add: keeps_def same_memory_def)
  obtain v db' where c: "create_galera_group_config e m db = (v, db')"
    by (cases "create_galera_group_config e m db")
  show ?thesis
  proof (cases v)
    case (Inl err)
    with c insert_memory [of e m db] show ?thesis by (simp add: cr and_then_def)
  next
    case (Inr x)
    with c insert_memory [of e m db] show ?thesis by (auto simp: cr and_then_def k)
  qed
qed

lemma present_body_unique:
  assumes "unique_keys (memory db)"
  shows "unique_keys (memory (snd (present_body e m res db)))"
proof (cases "check_galera_group_config e m db")
  case (Pair v db1)
  from check_memory [of e m db] Pair have m1: "memory db1 = memory db" by simp
  show ?thesis
  proof (cases v)
    case (Inl err)
    with Pair m1 assms show ?thesis by (simp add: present_body_def and_then_def)
  next
    case (Inr found)
    with Pair have f: "found = (rows_of m db \<noteq> [])" by (simp add: check_value)
    show ?thesis
    proof (cases found)
      case False
      with f have none: "filter (targets (writer_hostgroup m)) (memory db1) = []"
        by (simp add: rows_of_def m1)
      from assms m1 have u: "unique_keys (memory db1)" by simp
      have "unique_keys (memory db1 @ [new_row m])"
        by (rule unique_keys_insert [OF none u]) (simp add: new_row_def)
      with create_memory [of e m res db1] u
      have "unique_keys (memory (snd (create_galera_group e m res db1)))" by auto
      with Pair Inr False show ?thesis by (simp add: present_body_def and_then_def)
    next
      case True
      let ?upd = "and_then (update_galera_group e m res) (\<lambda>res1.
          and_then (get_galera_group_config e m) (\<lambda>g. ret (res1\<lparr>galera_group := Some g\<rparr>)))"
      have "keeps still_unique ?upd"
        by (intro keeps_and_then keeps_ret keeps_get keeps_update)
          (simp_all add: step_ok_still_unique)
      with assms m1 have "unique_keys (memory (snd (?upd db1)))"
        by (simp add: keeps_def still_unique_def)
      with Pair Inr True show ?thesis by (simp add: present_body_def and_then_def)
    qed
  qed
qed

lemma absent_body_unique:
  assumes "unique_keys (memory db)"
  shows "unique_keys (memory (snd (absent_body e m res db)))"
proof -
  have "keeps still_unique (absent_body e m res)"
    unfolding absent_body_def
    by (auto intro!: keeps_and_then keeps_ret keeps_check keeps_delete
        simp: step_ok_still_unique)
  with assms show ?thesis by (simp add: keeps_def still_unique_def)
qed

lemma guarded_memory:
  "memory (snd (guarded p body db)) = memory (snd (body db))"
  by (cases "body db") (auto simp: guarded_def split: sum.splits exn.splits)

lemma main_unique:
  assumes "unique_keys (memory db)"
  shows "unique_keys (memory (snd (main e m db)))"
proof (cases "perform_checks m")
  case (Some err)
  with assms show ?thesis by (simp add: main_def)
next
  case None
  obtain v db1 where c: "mysql_connect e db = (v, db1)" by (cases "mysql_connect e db")
  then have m1: "memory db1 = memory db"
    by (auto simp: mysql_connect_def Let_def split: option.splits)
  show ?thesis
  proof (cases v)
    case (Inl x)
    with None c m1 assms show ?thesis by (cases x) (simp_all add: main_def)
  next
    case (Inr u)
    from assms m1 have "unique_keys (memory db1)" by simp
    with None c Inr show ?thesis
      by (simp add: main_def Let_def guarded_memory present_body_unique absent_body_unique)
  qed
qed

lemma unique_keys_rows:
  "unique_keys t \<Longrightarrow> length (filter (targets w) t) \<le> 1"
proof (induction t)
  case Nil
  then show ?case by simp
next
  case (Cons r t)
  then have ih: "length (filter (targets w) t) \<le> 1" by (simp add: unique_keys_def)
  show ?case
  proof (cases "targets w r")
    case True
    with Cons.prems have "\<forall>x \<in> set t. \<not> targets w x"
      by (auto simp: unique_keys_def targets_def image_iff)
    then have "filter (targets w) t = []" by (simp add: filter_empty_conv)
    with True show ?thesis by simp
  next
    case False
    with ih show ?thesis by simp
  qed
qed

subsubsection \<open>The frame\<close>

lemma step_ok_same_others:
  assumes "may_attempt m a"
  shows "step_ok (same_others (writer_hostgroup m)) a"
  using assms
  by (auto simp: may_attempt_def step_ok_def same_others_def persist_def activate_def
      delete_where_update_where delete_where_idem delete_where_new_row)

text \<open>
  Claim C4. For every parameter set, either state, every starting table and every
  environment, the rows whose \<^verbatim>\<open>writer_hostgroup\<close> differs from the parameter are
  after the run exactly what they were before it, in the same order: the module changes
  at most the rows with the given \<^verbatim>\<open>writer_hostgroup\<close>. And these are at most a
  single row: if \<^verbatim>\<open>writer_hostgroup\<close> identifies the rows of the table before the
  run, as the key of the table, it does so after the run, and at most one row has the
  given \<^verbatim>\<open>writer_hostgroup\<close>.
\<close>

theorem other_rows_unchanged:
  "filter (\<lambda>r. col_writer_hostgroup r \<noteq> writer_hostgroup m) (memory (snd (main e m db)))
   = filter (\<lambda>r. col_writer_hostgroup r \<noteq> writer_hostgroup m) (memory db)
   \<and> (unique_keys (memory db) \<longrightarrow>
        unique_keys (memory (snd (main e m db)))
        \<and> length (rows_of m (snd (main e m db))) \<le> 1)"
proof -
  have "same_others (writer_hostgroup m) db (snd (main e m db))"
    by (rule main_keeps [OF step_ok_same_others]) (simp_all add: same_others_def)
  then have frame:
    "filter (\<lambda>r. col_writer_hostgroup r \<noteq> writer_hostgroup m) (memory (snd (main e m db)))
     = filter (\<lambda>r. col_writer_hostgroup r \<noteq> writer_hostgroup m) (memory db)"
    by (simp add: same_others_def delete_where_def targets_def)
  have key: "unique_keys (memory (snd (main e m db)))
        \<and> length (rows_of m (snd (main e m db))) \<le> 1" if "unique_keys (memory db)"
    using main_unique [OF that, of e m]
      unique_keys_rows [of "memory (snd (main e m db))" "writer_hostgroup m"]
    by (simp add: rows_of_def)
  from frame key show ?thesis by blast
qed

theorem other_rows_unchanged_witness:
  "unique_keys (memory (db_with [row_1, row_9]))
   \<and> filter (\<lambda>r. col_writer_hostgroup r \<noteq> writer_hostgroup (group_1\<lparr>state := Absent\<rparr>))
     (memory (snd (main calm (group_1\<lparr>state := Absent\<rparr>) (db_with [row_1, row_9]))))
   = [row_9]
   \<and> length (rows_of (group_1\<lparr>state := Absent\<rparr>)
        (snd (main calm (group_1\<lparr>state := Absent\<rparr>) (db_with [row_1, row_9])))) \<le> 1"
proof -
  have u: "unique_keys (memory (db_with [row_1, row_9]))"
    by (simp add: unique_keys_def db_with_def row_1_def row_9_def)
  have f: "filter (\<lambda>r. col_writer_hostgroup r \<noteq> writer_hostgroup (group_1\<lparr>state := Absent\<rparr>))
             (memory (db_with [row_1, row_9])) = [row_9]"
    by (simp add: example_defs)
  from other_rows_unchanged [of "group_1\<lparr>state := Absent\<rparr>" calm "db_with [row_1, row_9]"] u f
  show ?thesis by simp
qed

lemma step_ok_untouched:
  assumes "check_mode m" "may_attempt m a"
  shows "step_ok untouched a"
  using assms
  by (auto simp: may_attempt_def step_ok_def untouched_def attempts_only_def)

text \<open>
  Claim C10. In check mode, for every parameter set, every starting state and every
  environment, the module attempts no INSERT, UPDATE or DELETE and neither saves to disk
  nor loads to runtime; the table, its persisted copy and its runtime copy are unchanged.
  The result may all the same report \<^verbatim>\<open>changed=True\<close>, as the run of the witness does.
\<close>

theorem check_mode_changes_nothing:
  assumes "check_mode m"
  shows "memory (snd (main e m db)) = memory db
         \<and> disk (snd (main e m db)) = disk db
         \<and> runtime (snd (main e m db)) = runtime db
         \<and> list_all (\<lambda>a. \<not> is_write a \<and> \<not> is_config a) (issued db (snd (main e m db)))"
proof -
  have "untouched db db" by (simp add: untouched_def attempts_only_def)
  with step_ok_untouched [OF assms] have "untouched db (snd (main e m db))"
    by (rule main_keeps)
  then show ?thesis by (simp add: untouched_def attempts_only_issued)
qed

theorem check_mode_changes_nothing_witness:
  "check_mode (group_1\<lparr>check_mode := True\<rparr>)
   \<and> memory (snd (main calm (group_1\<lparr>check_mode := True\<rparr>) (db_with [row_9]))) = [row_9]
   \<and> disk (snd (main calm (group_1\<lparr>check_mode := True\<rparr>) (db_with [row_9]))) = []
   \<and> runtime (snd (main calm (group_1\<lparr>check_mode := True\<rparr>) (db_with [row_9]))) = []
   \<and> reports_changed (fst (main calm (group_1\<lparr>check_mode := True\<rparr>) (db_with [row_9])))"
proof -
  have h: "check_mode (group_1\<lparr>check_mode := True\<rparr>)" by simp
  have "reports_changed (fst (main calm (group_1\<lparr>check_mode := True\<rparr>) (db_with [row_9])))"
    by (simp add: main_insert_check reliable_calm example_defs reports_changed_def)
  with check_mode_changes_nothing [OF h, of calm "db_with [row_9]"] h
  show ?thesis by (simp add: db_with_def)
qed

subsection \<open>Insertion\<close>

lemma step_ok_inserts:
  assumes "may_attempt m a"
  shows "step_ok (attempts_only (\<lambda>a. is_insert a \<longrightarrow> a = Insert (declared_row m))) a"
  using assms
  by (intro step_ok_attempts_only) (auto simp: may_attempt_def new_row_declared)

text \<open>
  Claim C6. When the state is present, no row with the given \<^verbatim>\<open>writer_hostgroup\<close>
  exists and check mode is off, every INSERT that the run attempts carries the declared
  row: the four hostgroups, \<^verbatim>\<open>active\<close>, \<^verbatim>\<open>max_writers\<close>,
  \<^verbatim>\<open>writer_is_also_reader\<close>, \<^verbatim>\<open>max_transactions_behind\<close> and the comment, each
  equal to the parameter of the same name, the comment being the empty string when the
  parameter is \<^verbatim>\<open>None\<close> or empty. When moreover the parameters pass the module's
  checks and nothing raises, the run exits, attempts that INSERT, and the table is the old
  table followed by the declared row.
\<close>

theorem inserted_row_is_declared_row:
  assumes "state m = Present" "rows_of m db = []" "\<not> check_mode m"
  shows "list_all (\<lambda>a. is_insert a \<longrightarrow> a = Insert (declared_row m))
           (issued db (snd (main e m db)))
    \<and> (reliable e \<and> perform_checks m = None \<longrightarrow>
         exits (fst (main e m db))
         \<and> Insert (declared_row m) \<in> set (issued db (snd (main e m db)))
         \<and> memory (snd (main e m db)) = memory db @ [declared_row m])"
proof -
  have "attempts_only (\<lambda>a. is_insert a \<longrightarrow> a = Insert (declared_row m)) db db"
    by (simp add: attempts_only_def)
  with step_ok_inserts
  have "attempts_only (\<lambda>a. is_insert a \<longrightarrow> a = Insert (declared_row m)) db
          (snd (main e m db))"
    by (rule main_keeps)
  then have first: "list_all (\<lambda>a. is_insert a \<longrightarrow> a = Insert (declared_row m))
      (issued db (snd (main e m db)))"
    by (rule attempts_only_issued)
  have second: "exits (fst (main e m db))
         \<and> Insert (declared_row m) \<in> set (issued db (snd (main e m db)))
         \<and> memory (snd (main e m db)) = memory db @ [declared_row m]"
    if "reliable e" "perform_checks m = None"
    using main_insert [OF that assms(1,3,2)]
    by (simp add: exits_def new_row_declared)
  from first second show ?thesis by blast
qed

theorem inserted_row_is_declared_row_witness:
  "state group_1 = Present \<and> rows_of group_1 empty_db = [] \<and> \<not> check_mode group_1
   \<and> reliable calm \<and> perform_checks group_1 = None
   \<and> Insert row_1 \<in> set (issued empty_db (snd (main calm group_1 empty_db)))
   \<and> list_all (\<lambda>a. is_insert a \<longrightarrow> a = Insert row_1)
        (issued empty_db (snd (main calm group_1 empty_db)))
   \<and> memory (snd (main calm group_1 empty_db)) = [row_1]"
proof -
  have h: "state group_1 = Present" "rows_of group_1 empty_db = []" "\<not> check_mode group_1"
    by (simp_all add: example_defs)
  have k: "reliable calm \<and> perform_checks group_1 = None"
    by (simp add: reliable_calm example_defs)
  have d: "declared_row group_1 = row_1"
    by (simp add: declared_row_def group_1_def row_1_def)
  have e: "memory empty_db = []" by (simp add: empty_db_def)
  from inserted_row_is_declared_row [OF h, of calm] h k show ?thesis
    by (simp add: d e)
qed

subsection \<open>The module's own value checks\<close>

lemma main_exits:
  assumes "reliable e" "perform_checks m = None"
  shows "exits (fst (main e m db))"
proof (cases rule: run_cases [of m db])
  case ins
  with assms show ?thesis by (simp add: main_insert exits_def)
next
  case ins_check
  with assms show ?thesis by (simp add: main_insert_check exits_def)
next
  case (upd cur rest)
  with assms show ?thesis by (simp add: main_update exits_def)
next
  case (upd_check cur rest)
  with assms show ?thesis by (simp add: main_update_check exits_def)
next
  case (del cur rest)
  with assms show ?thesis by (simp add: main_delete exits_def)
next
  case (del_check cur rest)
  with assms show ?thesis by (simp add: main_delete_check exits_def)
next
  case noop
  with assms show ?thesis by (simp add: main_absent exits_def)
qed

text \<open>
  Claim C7, as stated, is false: the module's own \<^verbatim>\<open>perform_checks\<close> rejects
  parameter values. With \<^verbatim>\<open>reader_hostgroup\<close> equal to \<^verbatim>\<open>writer_hostgroup\<close> the
  run fails with the module's message and nothing is attempted on the admin interface.
\<close>

theorem module_rejects_parameters_counterexample:
  "perform_checks (group_1\<lparr>reader_hostgroup := 1\<rparr>)
     = Some ''reader_hostgroup and writer_hostgroup must be different integer values''
   \<and> main calm (group_1\<lparr>reader_hostgroup := 1\<rparr>) empty_db
     = (Fail ''reader_hostgroup and writer_hostgroup must be different integer values'',
        empty_db)"
  by (simp add: main_def example_defs)

text \<open>
  Claim C7, amended. The module checks three things itself, in \<^verbatim>\<open>perform_checks\<close>:
  that \<^verbatim>\<open>writer_hostgroup\<close> is not negative, that \<^verbatim>\<open>reader_hostgroup\<close> is not
  negative, and that the two differ. It checks nothing else: when nothing raises on the
  admin interface, a run ends in \<^verbatim>\<open>exit_json\<close> exactly when the parameters pass these
  three checks, whatever the other values are.
\<close>

theorem only_three_value_checks:
  assumes "reliable e"
  shows "exits (fst (main e m db)) \<longleftrightarrow>
     \<not> (writer_hostgroup m < 0 \<or> reader_hostgroup m < 0
        \<or> reader_hostgroup m = writer_hostgroup m)"
proof (cases "perform_checks m")
  case None
  with assms have "exits (fst (main e m db))" by (rule main_exits)
  with None show ?thesis by (simp add: perform_checks_None)
next
  case (Some err)
  then have "\<not> exits (fst (main e m db))" by (simp add: main_invalid exits_def)
  moreover from Some have "perform_checks m \<noteq> None" by simp
  ultimately show ?thesis by (simp add: perform_checks_None)
qed

theorem only_three_value_checks_witness:
  "reliable calm
   \<and> exits (fst (main calm (group_1\<lparr>backup_writer_hostgroup := - 7, active := 5\<rparr>) empty_db))
   \<and> \<not> exits (fst (main calm (group_1\<lparr>writer_hostgroup := - 3\<rparr>) empty_db))"
  using only_three_value_checks [OF reliable_calm,
      of "group_1\<lparr>backup_writer_hostgroup := - 7, active := 5\<rparr>" empty_db]
    only_three_value_checks [OF reliable_calm, of "group_1\<lparr>writer_hostgroup := - 3\<rparr>" empty_db]
  by (simp add: reliable_calm group_1_def)

subsection \<open>Persisting and activating\<close>

lemma config_filter_reliable:
  assumes "reliable e" "perform_checks m = None"
  shows "filter is_config (issued db (snd (main e m db)))
         = (if reports_changed (fst (main e m db)) \<and> \<not> check_mode m
            then config_actions m else [])"
proof (cases rule: run_cases [of m db])
  case ins
  with assms show ?thesis by (simp add: main_insert reports_changed_def)
next
  case ins_check
  with assms show ?thesis by (simp add: main_insert_check reports_changed_def)
next
  case (upd cur rest)
  with assms show ?thesis by (simp add: main_update reports_changed_def)
next
  case (upd_check cur rest)
  with assms show ?thesis by (simp add: main_update_check reports_changed_def)
next
  case (del cur rest)
  with assms show ?thesis by (simp add: main_delete reports_changed_def)
next
  case (del_check cur rest)
  with assms show ?thesis by (simp add: main_delete_check reports_changed_def)
next
  case noop
  with assms show ?thesis by (simp add: main_absent reports_changed_def)
qed

lemma rows_of_updated_table:
  assumes "rows_of m db = cur # rest"
  shows "fetchone (filter (targets (writer_hostgroup m)) (updated_table m cur (memory db)))
         = Some (cur\<lparr>col_reader_hostgroup := reader_hostgroup m, col_comment := comment m\<rparr>)"
proof -
  have f: "filter (targets (writer_hostgroup m)) (memory db) = cur # rest"
    using assms by (simp add: rows_of_def)
  show ?thesis
  proof (cases "comment_differs m cur")
    case True
    show ?thesis
    proof (cases "reader_differs m cur")
      case True
      with \<open>comment_differs m cur\<close> f show ?thesis
        by (simp add: updated_table_def filter_update_where fetchone_def)
    next
      case False
      then have "col_reader_hostgroup cur = reader_hostgroup m"
        by (simp add: reader_differs_def)
      then have "cur\<lparr>col_reader_hostgroup := reader_hostgroup m, col_comment := comment m\<rparr>
                 = cur\<lparr>col_comment := comment m\<rparr>" by (cases cur) simp
      with False \<open>comment_differs m cur\<close> f show ?thesis
        by (simp add: updated_table_def filter_update_where fetchone_def)
    qed
  next
    case False
    then have c: "col_comment cur = comment m" by (simp add: comment_differs_def)
    show ?thesis
    proof (cases "reader_differs m cur")
      case True
      from c have "cur\<lparr>col_reader_hostgroup := reader_hostgroup m, col_comment := comment m\<rparr>
                 = cur\<lparr>col_reader_hostgroup := reader_hostgroup m\<rparr>" by (cases cur) simp
      with True \<open>\<not> comment_differs m cur\<close> f show ?thesis
        by (simp add: updated_table_def filter_update_where fetchone_def)
    next
      case False
      then have "col_reader_hostgroup cur = reader_hostgroup m"
        by (simp add: reader_differs_def)
      with c have "cur\<lparr>col_reader_hostgroup := reader_hostgroup m, col_comment := comment m\<rparr>
                 = cur" by (cases cur) simp
      with False \<open>\<not> comment_differs m cur\<close> f show ?thesis
        by (simp add: updated_table_def fetchone_def)
    qed
  qed
qed

lemma table_differs_reliable:
  assumes "reliable e" "perform_checks m = None" "\<not> check_mode m"
  shows "reports_changed (fst (main e m db)) \<longleftrightarrow> memory (snd (main e m db)) \<noteq> memory db"
proof (cases rule: run_cases [of m db])
  case ins
  with assms show ?thesis by (simp add: main_insert reports_changed_def)
next
  case (upd cur rest)
  show ?thesis
  proof (cases "comment_differs m cur \<or> reader_differs m cur")
    case True
    let ?cur = "cur\<lparr>col_reader_hostgroup := reader_hostgroup m, col_comment := comment m\<rparr>"
    from True have ne: "?cur \<noteq> cur"
      by (cases cur) (auto simp: comment_differs_def reader_differs_def)
    have "updated_table m cur (memory db) \<noteq> memory db"
    proof
      assume eq: "updated_table m cur (memory db) = memory db"
      from rows_of_updated_table [OF upd(2)] eq upd(2) have "Some ?cur = Some cur"
        by (simp add: rows_of_def fetchone_def)
      with ne show False by simp
    qed
    with True assms upd show ?thesis by (simp add: main_update reports_changed_def)
  next
    case False
    with assms upd show ?thesis by (simp add: main_update reports_changed_def)
  qed
next
  case (del cur rest)
  from del(2) have "delete_where (writer_hostgroup m) (memory db) \<noteq> memory db"
    unfolding rows_of_def by (rule delete_where_differs)
  with assms del show ?thesis by (simp add: main_delete reports_changed_def)
next
  case noop
  with assms show ?thesis by (simp add: main_absent reports_changed_def)
qed (use assms in simp_all)

text \<open>
  Claim C5. For every run that ends in \<^verbatim>\<open>exit_json\<close>, in any environment:
  \<^verbatim>\<open>save_config_to_disk\<close> is called if and only if the result says
  \<^verbatim>\<open>changed=True\<close>, check mode is off and \<^verbatim>\<open>save_to_disk\<close> is true;
  \<^verbatim>\<open>load_config_to_runtime\<close> is called if and only if the result says
  \<^verbatim>\<open>changed=True\<close>, check mode is off and \<^verbatim>\<open>load_to_runtime\<close> is true. So
  neither is called when nothing changed. With check mode off, \<^verbatim>\<open>changed=True\<close>
  is reported exactly when the table after the run differs from the table before it.
\<close>

theorem config_managed_iff_changed:
  assumes "main e m db = (Exit r, db')"
  shows "(Save_config_to_disk \<in> set (issued db db')
           \<longleftrightarrow> changed r \<and> \<not> check_mode m \<and> save_to_disk m)
       \<and> (Load_config_to_runtime \<in> set (issued db db')
           \<longleftrightarrow> changed r \<and> \<not> check_mode m \<and> load_to_runtime m)
       \<and> (\<not> check_mode m \<longrightarrow> (changed r \<longleftrightarrow> memory db' \<noteq> memory db))"
proof -
  from main_exit_reliable [OF assms reliable_calm]
  have pc: "perform_checks m = None" and run: "main calm m db = (Exit r, db')" by simp_all
  from config_filter_reliable [OF reliable_calm pc, of db] run
  have f: "filter is_config (issued db db') =
           (if changed r \<and> \<not> check_mode m then config_actions m else [])"
    by (simp add: reports_changed_def)
  have "Save_config_to_disk \<in> set (issued db db')
        \<longleftrightarrow> Save_config_to_disk \<in> set (filter is_config (issued db db'))"
    by simp
  also have "\<dots> \<longleftrightarrow> changed r \<and> \<not> check_mode m \<and> save_to_disk m"
    by (simp add: f config_actions_def)
  finally have save: "Save_config_to_disk \<in> set (issued db db')
        \<longleftrightarrow> changed r \<and> \<not> check_mode m \<and> save_to_disk m" .
  have "Load_config_to_runtime \<in> set (issued db db')
        \<longleftrightarrow> Load_config_to_runtime \<in> set (filter is_config (issued db db'))"
    by simp
  also have "\<dots> \<longleftrightarrow> changed r \<and> \<not> check_mode m \<and> load_to_runtime m"
    by (simp add: f config_actions_def)
  finally have load: "Load_config_to_runtime \<in> set (issued db db')
        \<longleftrightarrow> changed r \<and> \<not> check_mode m \<and> load_to_runtime m" .
  have differs: "changed r \<longleftrightarrow> memory db' \<noteq> memory db" if "\<not> check_mode m"
    using table_differs_reliable [OF reliable_calm pc that, of db] run
    by (simp add: reports_changed_def)
  from save load differs show ?thesis by simp
qed

theorem config_managed_iff_changed_witness:
  "main calm (group_1\<lparr>load_to_runtime := False\<rparr>) empty_db =
     (Exit \<lparr>r_state = Present, changed = True, msg = Some ''Added server to mysql_hosts'',
            galera_group = Some (Some row_1)\<rparr>,
      \<lparr>memory = [row_1], disk = [row_1], runtime = [],
       actions = [Connect, Select_count 1, Insert row_1, Select_row 1, Save_config_to_disk]\<rparr>)
   \<and> \<not> check_mode (group_1\<lparr>load_to_runtime := False\<rparr>)
   \<and> Save_config_to_disk \<in> set (issued empty_db
        \<lparr>memory = [row_1], disk = [row_1], runtime = [],
         actions = [Connect, Select_count 1, Insert row_1, Select_row 1, Save_config_to_disk]\<rparr>)
   \<and> Load_config_to_runtime \<notin> set (issued empty_db
        \<lparr>memory = [row_1], disk = [row_1], runtime = [],
         actions = [Connect, Select_count 1, Insert row_1, Select_row 1, Save_config_to_disk]\<rparr>)"
proof -
  let ?m = "group_1\<lparr>load_to_runtime := False\<rparr>"
  have pc: "perform_checks ?m = None" by (simp add: example_defs)
  have st: "state ?m = Present" "\<not> check_mode ?m" by (simp_all add: example_defs)
  have r0: "rows_of ?m empty_db = []" by (simp add: example_defs)
  have nr: "new_row ?m = row_1"
    by (simp add: new_row_def group_1_def row_1_def comment_or_empty_def)
  have h: "main calm ?m empty_db =
     (Exit \<lparr>r_state = Present, changed = True, msg = Some ''Added server to mysql_hosts'',
            galera_group = Some (Some row_1)\<rparr>,
      \<lparr>memory = [row_1], disk = [row_1], runtime = [],
       actions = [Connect, Select_count 1, Insert row_1, Select_row 1, Save_config_to_disk]\<rparr>)"
    unfolding main_insert [OF reliable_calm pc st r0] nr
    by (simp add: group_1_def empty_db_def config_effect_def config_actions_def persist_def)
  from config_managed_iff_changed [OF h] h st show ?thesis
    by (simp add: group_1_def)
qed

subsection \<open>Insert, update, delete\<close>

text \<open>
  Claim C1, as stated, is false. In check mode, with the state present and no row with
  the given \<^verbatim>\<open>writer_hostgroup\<close>, the module inserts nothing; and with parameters that
  its own checks reject (here a negative \<^verbatim>\<open>writer_hostgroup\<close>) it inserts nothing
  either.
\<close>

theorem always_inserts_counterexample:
  "state (group_1\<lparr>check_mode := True\<rparr>) = Present
   \<and> rows_of (group_1\<lparr>check_mode := True\<rparr>) empty_db = []
   \<and> memory (snd (main calm (group_1\<lparr>check_mode := True\<rparr>) empty_db)) = []
   \<and> filter is_write
        (issued empty_db (snd (main calm (group_1\<lparr>check_mode := True\<rparr>) empty_db))) = []
   \<and> state (group_1\<lparr>writer_hostgroup := - 1\<rparr>) = Present
   \<and> rows_of (group_1\<lparr>writer_hostgroup := - 1\<rparr>) empty_db = []
   \<and> memory (snd (main calm (group_1\<lparr>writer_hostgroup := - 1\<rparr>) empty_db)) = []"
  by (simp add: main_insert_check main_invalid reliable_calm example_defs)

text \<open>
  Claim C1, amended. With check mode off, parameters that pass the module's checks and
  an admin interface on which nothing raises, the run ends in \<^verbatim>\<open>exit_json\<close> and:
  with the state present and no row of the given \<^verbatim>\<open>writer_hostgroup\<close>, it inserts
  one row, built from the parameters; with the state present and such a row, it issues
  the UPDATE of the comment and the UPDATE of \<^verbatim>\<open>reader_hostgroup\<close>, each only if the
  first such row differs from the parameter, and no other statement that writes; with
  the state absent and such a row, it deletes the rows of that \<^verbatim>\<open>writer_hostgroup\<close>;
  with the state absent and no such row, it writes nothing, the table is unchanged and
  the result says \<^verbatim>\<open>changed=False\<close>.
\<close>

theorem insert_update_or_delete:
  assumes "reliable e" "perform_checks m = None" "\<not> check_mode m"
  shows "exits (fst (main e m db))
    \<and> (state m = Present \<and> rows_of m db = [] \<longrightarrow>
         filter is_write (issued db (snd (main e m db))) = [Insert (new_row m)]
         \<and> memory (snd (main e m db)) = memory db @ [new_row m])
    \<and> (state m = Present \<and> rows_of m db \<noteq> [] \<longrightarrow>
         filter is_write (issued db (snd (main e m db))) = update_actions m (hd (rows_of m db))
         \<and> memory (snd (main e m db)) = updated_table m (hd (rows_of m db)) (memory db))
    \<and> (state m = Absent \<and> rows_of m db \<noteq> [] \<longrightarrow>
         filter is_write (issued db (snd (main e m db))) = [Delete (writer_hostgroup m)]
         \<and> memory (snd (main e m db)) = delete_where (writer_hostgroup m) (memory db))
    \<and> (state m = Absent \<and> rows_of m db = [] \<longrightarrow>
         filter is_write (issued db (snd (main e m db))) = []
         \<and> memory (snd (main e m db)) = memory db
         \<and> \<not> reports_changed (fst (main e m db)))"
proof (cases rule: run_cases [of m db])
  case ins
  with assms show ?thesis by (simp add: main_insert exits_def)
next
  case (upd cur rest)
  with assms show ?thesis by (simp add: main_update exits_def updated_table_def)
next
  case (del cur rest)
  with assms show ?thesis by (simp add: main_delete exits_def)
next
  case noop
  with assms show ?thesis by (simp add: main_absent exits_def reports_changed_def)
qed (use assms in simp_all)

theorem insert_update_or_delete_witness:
  "reliable calm \<and> perform_checks group_1 = None \<and> \<not> check_mode group_1
   \<and> perform_checks (group_1\<lparr>state := Absent\<rparr>) = None
   \<and> \<not> check_mode (group_1\<lparr>state := Absent\<rparr>)
   \<and> state group_1 = Present \<and> rows_of group_1 empty_db = []
   \<and> memory (snd (main calm group_1 empty_db)) = [row_1]
   \<and> rows_of group_1 (db_with [row_9, row_1\<lparr>col_reader_hostgroup := 8\<rparr>]) \<noteq> []
   \<and> memory (snd (main calm group_1 (db_with [row_9, row_1\<lparr>col_reader_hostgroup := 8\<rparr>])))
       = [row_9, row_1]
   \<and> state (group_1\<lparr>state := Absent\<rparr>) = Absent
   \<and> rows_of (group_1\<lparr>state := Absent\<rparr>) (db_with [row_1, row_9]) \<noteq> []
   \<and> memory (snd (main calm (group_1\<lparr>state := Absent\<rparr>) (db_with [row_1, row_9]))) = [row_9]
   \<and> rows_of (group_1\<lparr>state := Absent\<rparr>) (db_with [row_9]) = []
   \<and> memory (snd (main calm (group_1\<lparr>state := Absent\<rparr>) (db_with [row_9]))) = [row_9]
   \<and> \<not> reports_changed (fst (main calm (group_1\<lparr>state := Absent\<rparr>) (db_with [row_9])))"
proof -
  let ?a = "group_1\<lparr>state := Absent\<rparr>"
  have p: "perform_checks group_1 = None" "\<not> check_mode group_1"
    by (simp_all add: example_defs)
  have a: "perform_checks ?a = None" "\<not> check_mode ?a"
    by (simp_all add: example_defs)
  have s: "state group_1 = Present" "state ?a = Absent" by (simp_all add: group_1_def)
  have r: "rows_of group_1 empty_db = []"
    "rows_of group_1 (db_with [row_9, row_1\<lparr>col_reader_hostgroup := 8\<rparr>])
       = [row_1\<lparr>col_reader_hostgroup := 8\<rparr>]"
    "rows_of ?a (db_with [row_1, row_9]) = [row_1]"
    "rows_of ?a (db_with [row_9]) = []"
    by (simp_all add: example_defs)
  have v: "new_row group_1 = row_1"
    "updated_table group_1 (row_1\<lparr>col_reader_hostgroup := 8\<rparr>)
       [row_9, row_1\<lparr>col_reader_hostgroup := 8\<rparr>] = [row_9, row_1]"
    "delete_where 1 [row_1, row_9] = [row_9]"
    by (simp_all add: new_row_def comment_or_empty_def updated_table_def update_where_def
        delete_where_def comment_differs_def reader_differs_def example_defs)
  have t: "memory empty_db = []" "memory (db_with [row_9]) = [row_9]"
    "memory (db_with [row_1, row_9]) = [row_1, row_9]"
    "memory (db_with [row_9, row_1\<lparr>col_reader_hostgroup := 8\<rparr>])
       = [row_9, row_1\<lparr>col_reader_hostgroup := 8\<rparr>]"
    "writer_hostgroup ?a = 1"
    by (simp_all add: empty_db_def db_with_def group_1_def)
  from insert_update_or_delete [OF reliable_calm p, of empty_db]
    insert_update_or_delete [OF reliable_calm p,
      of "db_with [row_9, row_1\<lparr>col_reader_hostgroup := 8\<rparr>]"]
    insert_update_or_delete [OF reliable_calm a, of "db_with [row_1, row_9]"]
    insert_update_or_delete [OF reliable_calm a, of "db_with [row_9]"]
  show ?thesis
    by (simp add: reliable_calm p a s r v t)
qed

subsection \<open>What an update brings in line\<close>

lemma main_update_rows:
  assumes "reliable e" "perform_checks m = None" "state m = Present" "\<not> check_mode m"
      and "rows_of m db = cur # rest"
  shows "fetchone (rows_of m (snd (main e m db)))
        = Some (cur\<lparr>col_reader_hostgroup := reader_hostgroup m, col_comment := comment m\<rparr>)
    \<and> length (memory (snd (main e m db))) = length (memory db)"
proof (cases "comment_differs m cur \<or> reader_differs m cur")
  case True
  with assms rows_of_updated_table [OF assms(5)] show ?thesis
    by (simp add: main_update rows_of_def)
next
  case False
  then have "updated_table m cur (memory db) = memory db" by (simp add: updated_table_def)
  with False assms rows_of_updated_table [OF assms(5)] show ?thesis
    by (simp add: main_update rows_of_def)
qed

text \<open>
  Claim C2, as stated, is false. The row of \<^verbatim>\<open>writer_hostgroup\<close> 1 has
  \<^verbatim>\<open>backup_writer_hostgroup\<close> 2; the parameters declare 7; check mode is off and
  nothing raises. After the run the row still has 2.
\<close>

theorem update_all_columns_counterexample:
  "state (group_1\<lparr>backup_writer_hostgroup := 7\<rparr>) = Present
   \<and> \<not> check_mode (group_1\<lparr>backup_writer_hostgroup := 7\<rparr>)
   \<and> rows_of (group_1\<lparr>backup_writer_hostgroup := 7\<rparr>) (db_with [row_1]) = [row_1]
   \<and> exits (fst (main calm (group_1\<lparr>backup_writer_hostgroup := 7\<rparr>) (db_with [row_1])))
   \<and> map col_backup_writer_hostgroup
        (memory (snd (main calm (group_1\<lparr>backup_writer_hostgroup := 7\<rparr>) (db_with [row_1]))))
       = [2]
   \<and> backup_writer_hostgroup (group_1\<lparr>backup_writer_hostgroup := 7\<rparr>) = 7"
  by (simp add: main_update reliable_calm example_defs exits_def comment_differs_def
      reader_differs_def)

text \<open>
  Claim C2, amended. With the state present, check mode off, parameters that pass the
  module's checks, an admin interface on which nothing raises, and a row of the given
  \<^verbatim>\<open>writer_hostgroup\<close> in the table: after the run, the first such row (the one that
  the module reads) has the comment and the \<^verbatim>\<open>reader_hostgroup\<close> of the parameters,
  and every other column as before the run (\<^verbatim>\<open>backup_writer_hostgroup\<close>,
  \<^verbatim>\<open>offline_hostgroup\<close>, \<^verbatim>\<open>active\<close>, \<^verbatim>\<open>max_writers\<close>,
  \<^verbatim>\<open>writer_is_also_reader\<close> and \<^verbatim>\<open>max_transactions_behind\<close> are not brought in
  line). The table keeps its number of rows.
\<close>

theorem update_sets_comment_and_reader:
  assumes "reliable e" "perform_checks m = None" "state m = Present" "\<not> check_mode m"
      and "rows_of m db = cur # rest"
  shows "exits (fst (main e m db))
    \<and> fetchone (rows_of m (snd (main e m db)))
        = Some (cur\<lparr>col_reader_hostgroup := reader_hostgroup m, col_comment := comment m\<rparr>)
    \<and> length (memory (snd (main e m db))) = length (memory db)"
  using main_exits [OF assms(1,2)] main_update_rows [OF assms] by simp

theorem update_sets_comment_and_reader_witness:
  "reliable calm
   \<and> perform_checks (group_1\<lparr>reader_hostgroup := 5, comment := Some ''new''\<rparr>) = None
   \<and> state (group_1\<lparr>reader_hostgroup := 5, comment := Some ''new''\<rparr>) = Present
   \<and> \<not> check_mode (group_1\<lparr>reader_hostgroup := 5, comment := Some ''new''\<rparr>)
   \<and> rows_of (group_1\<lparr>reader_hostgroup := 5, comment := Some ''new''\<rparr>)
        (db_with [row_1, row_9]) = row_1 # []
   \<and> fetchone (rows_of (group_1\<lparr>reader_hostgroup := 5, comment := Some ''new''\<rparr>)
        (snd (main calm (group_1\<lparr>reader_hostgroup := 5, comment := Some ''new''\<rparr>)
               (db_with [row_1, row_9]))))
       = Some (row_1\<lparr>col_reader_hostgroup := 5, col_comment := Some ''new''\<rparr>)"
proof -
  let ?m = "group_1\<lparr>reader_hostgroup := 5, comment := Some ''new''\<rparr>"
  have pc: "perform_checks ?m = None" by (simp add: example_defs)
  have st: "state ?m = Present" "\<not> check_mode ?m" by (simp_all add: group_1_def)
  have r: "rows_of ?m (db_with [row_1, row_9]) = row_1 # []" by (simp add: example_defs)
  from update_sets_comment_and_reader [OF reliable_calm pc st r]
  show ?thesis by (simp add: reliable_calm pc st r)
qed

subsection \<open>Determinism\<close>











subsection \<open>Running the module twice\<close>

lemma rerun_update_quiet:
  assumes "reliable e" "perform_checks m = None" "state m = Present" "\<not> check_mode m"
      and "rows_of m db1 = cur # rest"
      and "\<not> comment_differs m cur" "\<not> reader_differs m cur"
  shows "exits (fst (main e m db1))
     \<and> \<not> reports_changed (fst (main e m db1))
     \<and> memory (snd (main e m db1)) = memory db1
     \<and> list_all (\<lambda>a. \<not> is_write a \<and> \<not> is_config a) (issued db1 (snd (main e m db1)))"
  using assms by (simp add: main_update exits_def reports_changed_def update_actions_def)

lemma rerun_absent_quiet:
  assumes "reliable e" "perform_checks m = None" "state m = Absent"
      and "rows_of m db1 = []"
  shows "exits (fst (main e m db1))
     \<and> \<not> reports_changed (fst (main e m db1))
     \<and> memory (snd (main e m db1)) = memory db1
     \<and> list_all (\<lambda>a. \<not> is_write a \<and> \<not> is_config a) (issued db1 (snd (main e m db1)))"
  using assms by (simp add: main_absent exits_def reports_changed_def)

text \<open>
  Claim C3 says that running the module twice leaves the table as running it once does,
  and that the second run performs no insert, update or delete and reports
  \<^verbatim>\<open>changed=False\<close>. The code breaks this when the comment is \<^verbatim>\<open>None\<close>, the state
  present, check mode off and no row of the given \<^verbatim>\<open>writer_hostgroup\<close> exists: the
  first run inserts the row with the comment \<^verbatim>\<open>''\<close> (\<^verbatim>\<open>self.comment or ''\<close> in
  \<^verbatim>\<open>create_galera_group_config\<close>), while \<^verbatim>\<open>update_galera_group\<close> and
  \<^verbatim>\<open>update_comment\<close> use \<^verbatim>\<open>self.comment\<close> as it is. So the second run finds the
  stored comment different from \<^verbatim>\<open>None\<close>, issues an UPDATE that sets it to NULL,
  and reports \<^verbatim>\<open>changed=True\<close>; the table after two runs is not the table after one.
\<close>

theorem second_run_after_insert_of_null_comment:
  "\<not> check_mode (group_1\<lparr>comment := None\<rparr>)
   \<and> state (group_1\<lparr>comment := None\<rparr>) = Present
   \<and> perform_checks (group_1\<lparr>comment := None\<rparr>) = None
   \<and> memory (snd (main calm (group_1\<lparr>comment := None\<rparr>) empty_db))
       = [row_1\<lparr>col_comment := Some ''''\<rparr>]
   \<and> reports_changed (fst (main calm (group_1\<lparr>comment := None\<rparr>)
         (snd (main calm (group_1\<lparr>comment := None\<rparr>) empty_db))))
   \<and> filter is_write (issued (snd (main calm (group_1\<lparr>comment := None\<rparr>) empty_db))
         (snd (main calm (group_1\<lparr>comment := None\<rparr>)
           (snd (main calm (group_1\<lparr>comment := None\<rparr>) empty_db)))))
       = [Update_comment None 1]
   \<and> memory (snd (main calm (group_1\<lparr>comment := None\<rparr>)
         (snd (main calm (group_1\<lparr>comment := None\<rparr>) empty_db))))
       = [row_1\<lparr>col_comment := None\<rparr>]"
proof -
  let ?m = "group_1\<lparr>comment := None\<rparr>"
  have pc: "perform_checks ?m = None" by (simp add: example_defs)
  have st: "state ?m = Present" "\<not> check_mode ?m" by (simp_all add: example_defs)
  have r0: "rows_of ?m empty_db = []" by (simp add: example_defs)
  note first = main_insert [OF reliable_calm pc st r0]
  have nr: "new_row ?m = row_1\<lparr>col_comment := Some ''''\<rparr>"
    by (simp add: new_row_def example_defs comment_or_empty_def)
  have r1: "rows_of ?m (snd (main calm ?m empty_db)) = row_1\<lparr>col_comment := Some ''''\<rparr> # []"
    by (simp add: first nr) (simp add: example_defs)
  note second = main_update [OF reliable_calm pc st r1]
  have d: "comment_differs ?m (row_1\<lparr>col_comment := Some ''''\<rparr>)"
     "\<not> reader_differs ?m (row_1\<lparr>col_comment := Some ''''\<rparr>)"
    by (simp_all add: comment_differs_def reader_differs_def example_defs)
  have m1: "memory (snd (main calm ?m empty_db)) = [row_1\<lparr>col_comment := Some ''''\<rparr>]"
    by (simp add: first nr) (simp add: example_defs)
  have runs: "reports_changed (fst (main calm ?m (snd (main calm ?m empty_db))))
   \<and> filter is_write (issued (snd (main calm ?m empty_db))
         (snd (main calm ?m (snd (main calm ?m empty_db))))) = [Update_comment None 1]
   \<and> memory (snd (main calm ?m (snd (main calm ?m empty_db)))) = [row_1\<lparr>col_comment := None\<rparr>]"
    apply (simp add: second d m1 reports_changed_def update_actions_def updated_table_def
        update_where_def)
    apply (simp add: example_defs)
    done
  from runs m1 pc st show ?thesis by simp
qed

text \<open>
  In every other case with check mode off, parameters that pass the module's checks and
  no error raised, the second run of the model is quiet: it exits, leaves the table as
  the first run left it, attempts nothing that writes, saves or loads, and reports
  \<^verbatim>\<open>changed=False\<close>.
\<close>

lemma second_run_quiet_otherwise:
  assumes "reliable e" "perform_checks m = None" "\<not> check_mode m"
      and "\<not> (state m = Present \<and> comment m = None \<and> rows_of m db = [])"
  shows "exits (fst (main e m db))
     \<and> exits (fst (main e m (snd (main e m db))))
     \<and> \<not> reports_changed (fst (main e m (snd (main e m db))))
     \<and> memory (snd (main e m (snd (main e m db)))) = memory (snd (main e m db))
     \<and> list_all (\<lambda>a. \<not> is_write a \<and> \<not> is_config a)
          (issued (snd (main e m db)) (snd (main e m (snd (main e m db)))))"
proof -
  have first: "exits (fst (main e m db))" using assms(1,2) by (rule main_exits)
  have "exits (fst (main e m (snd (main e m db))))
     \<and> \<not> reports_changed (fst (main e m (snd (main e m db))))
     \<and> memory (snd (main e m (snd (main e m db)))) = memory (snd (main e m db))
     \<and> list_all (\<lambda>a. \<not> is_write a \<and> \<not> is_config a)
          (issued (snd (main e m db)) (snd (main e m (snd (main e m db)))))"
  proof (cases rule: run_cases [of m db])
    case ins
    with assms(4) obtain c where c: "comment m = Some c" by (cases "comment m") auto
    from ins assms have rows: "rows_of m (snd (main e m db)) = new_row m # []"
      by (simp add: main_insert) (simp add: rows_of_def targets_def new_row_def)
    from c have "\<not> comment_differs m (new_row m)" "\<not> reader_differs m (new_row m)"
      by (simp_all add: comment_differs_def reader_differs_def new_row_def
          comment_or_empty_def)
    with assms(1,2) ins(1) assms(3) rows show ?thesis by (rule rerun_update_quiet)
  next
    case (upd cur rest)
    let ?cur = "cur\<lparr>col_reader_hostgroup := reader_hostgroup m, col_comment := comment m\<rparr>"
    from main_update_rows [OF assms(1,2) upd(1,3,2)]
    have "fetchone (rows_of m (snd (main e m db))) = Some ?cur" by simp
    then obtain rest' where rows: "rows_of m (snd (main e m db)) = ?cur # rest'"
      by (auto dest: fetchone_SomeD)
    have "\<not> comment_differs m ?cur" "\<not> reader_differs m ?cur"
      by (simp_all add: comment_differs_def reader_differs_def)
    with assms(1,2) upd(1) assms(3) rows show ?thesis by (rule rerun_update_quiet)
  next
    case (del cur rest)
    with assms have "rows_of m (snd (main e m db)) = []"
      by (simp add: main_delete) (simp add: rows_of_def rows_of_delete_where)
    with assms(1,2) del(1) show ?thesis by (rule rerun_absent_quiet)
  next
    case noop
    with assms have "rows_of m (snd (main e m db)) = []"
      by (simp add: main_absent)
    with assms(1,2) noop(1) show ?thesis by (rule rerun_absent_quiet)
  qed (use assms in simp_all)
  with first show ?thesis by simp
qed

end
